theory Spec2Isabelle
  imports Main "HOL-Library.Char_ord" "HOL-Library.List_Lexorder" "HOL-Library.Multiset"
begin

section \<open>The snapshot: habits and entries as the JSON has them\<close>

text \<open>
  The program (\<^verbatim>\<open>humane_cli.py\<close>) reads habits and entries as JSON objects and only
  ever reads them with \<^verbatim>\<open>d.get(key, default)\<close> or \<^verbatim>\<open>d[key]\<close>. A JSON object is
  modelled as a record with one optional field per key the program reads: \<open>None\<close> is
  an absent key. The field types are those of the input shape (strings and integers).
  A \<open>char\<close> stands for one character of a Python string (the characters with a code
  below 256 are covered), so that comparison of strings is Python's (lexicographic on
  the characters' codes) and \<open>take 10\<close> is the slice \<^verbatim>\<open>[:10]\<close>. Python's integers
  are unbounded: \<open>int\<close>.
\<close>

record habit =
  h_id :: "string option"
  h_name :: "string option"
  h_category :: "string option"
  h_targetPerWeek :: "int option"

record entry =
  e_habitId :: "string option"
  e_date :: "string option"
  e_value :: "int option"
  e_createdAt :: "string option"

record snapshot =
  habits_key :: "habit list option"
  entries_key :: "entry list option"

datatype py_error =
  ValueError | KeyError | LoadError | DuplicateKey | CellDoesNotExist | ScreenStackError

text \<open>\<^verbatim>\<open>d.get(key, default)\<close>\<close>

definition get_or :: "'a option \<Rightarrow> 'a \<Rightarrow> 'a" where
  "get_or v d = (case v of None \<Rightarrow> d | Some x \<Rightarrow> x)"

text \<open>\<^verbatim>\<open>data.get("habits", [])\<close> and \<^verbatim>\<open>data.get("entries", [])\<close>\<close>

definition habits_list :: "snapshot \<Rightarrow> habit list" where
  "habits_list d = get_or (habits_key d) []"

definition entries_list :: "snapshot \<Rightarrow> entry list" where
  "entries_list d = get_or (entries_key d) []"

section \<open>HumaneData\<close>

record HumaneData =
  data :: snapshot
  habits :: "string \<rightharpoonup> habit"
  entries :: "entry list"

text \<open>
  \<^verbatim>\<open>{h["id"]: h for h in ...}\<close>: the comprehension runs over the list from the left, a
  later habit replaces an earlier one with the same id, and \<^verbatim>\<open>h["id"]\<close> raises
  KeyError on a habit without the key.
\<close>

fun build_habits :: "habit list \<Rightarrow> (string \<rightharpoonup> habit) \<Rightarrow> py_error + (string \<rightharpoonup> habit)" where
  "build_habits [] m = Inr m"
| "build_habits (h # hs) m =
     (case h_id h of
        None \<Rightarrow> Inl KeyError
      | Some i \<Rightarrow> build_habits hs (m(i \<mapsto> h)))"

text \<open>
  The first three branches of \<^verbatim>\<open>__init__\<close>: which structure becomes \<^verbatim>\<open>self.data\<close>.
  \<open>read_json p\<close> stands for \<^verbatim>\<open>json.load(open(p))\<close>, the only input and output of the
  program; it is a parameter. \<^verbatim>\<open>elif filepath:\<close> is false on \<^verbatim>\<open>None\<close> and on the empty
  string.
\<close>

definition load_data ::
  "string option \<Rightarrow> snapshot option \<Rightarrow> (string \<Rightarrow> py_error + snapshot) \<Rightarrow> py_error + snapshot" where
  "load_data filepath dat read_json =
     (case dat of
        Some d \<Rightarrow> Inr d
      | None \<Rightarrow>
          (case filepath of
             Some p \<Rightarrow> (if p \<noteq> [] then read_json p else Inl ValueError)
           | None \<Rightarrow> Inl ValueError))"

definition HumaneData_init ::
  "string option \<Rightarrow> snapshot option \<Rightarrow> (string \<Rightarrow> py_error + snapshot) \<Rightarrow> py_error + HumaneData" where
  "HumaneData_init filepath dat read_json =
     (case load_data filepath dat read_json of
        Inl e \<Rightarrow> Inl e
      | Inr d \<Rightarrow>
          (case build_habits (habits_list d) Map.empty of
             Inl e \<Rightarrow> Inl e
           | Inr m \<Rightarrow> Inr \<lparr>data = d, habits = m, entries = entries_list d\<rparr>))"

text \<open>
  \<^verbatim>\<open>categories[k].append(habit)\<close> on a \<^verbatim>\<open>defaultdict(list)\<close>. A Python dict keeps its
  keys in the order of their first insertion: an association list, a new key at the end.
\<close>

fun dict_append :: "'k \<Rightarrow> 'v \<Rightarrow> ('k \<times> 'v list) list \<Rightarrow> ('k \<times> 'v list) list" where
  "dict_append k v [] = [(k, [v])]"
| "dict_append k v ((k', vs) # rest) =
     (if k = k' then (k', vs @ [v]) # rest else (k', vs) # dict_append k v rest)"

definition category_of :: "habit \<Rightarrow> string" where
  "category_of h = get_or (h_category h) ''uncategorized''"

definition get_categories :: "HumaneData \<Rightarrow> (string \<times> habit list) list" where
  "get_categories self =
     foldl (\<lambda>categories h. dict_append (category_of h) h categories) []
       (habits_list (data self))"

text \<open>\<^verbatim>\<open>h.get("category") == category\<close>: the absent key gives \<^verbatim>\<open>None\<close>, equal to no string.\<close>

definition get_habits_by_category :: "HumaneData \<Rightarrow> string \<Rightarrow> habit list" where
  "get_habits_by_category self category =
     filter (\<lambda>h. h_category h = Some category) (habits_list (data self))"

definition get_entries_for_habit :: "HumaneData \<Rightarrow> string \<Rightarrow> entry list" where
  "get_entries_for_habit self habit_id =
     filter (\<lambda>e. e_habitId e = Some habit_id) (entries self)"

text \<open>
  \<^verbatim>\<open>habit.get("name", "Unknown") if habit else "Unknown"\<close>. A dict stored in
  \<^verbatim>\<open>self.habits\<close> has the key \<^verbatim>\<open>"id"\<close>, so it is never the empty (false) dict.
\<close>

definition get_habit_name :: "HumaneData \<Rightarrow> string \<Rightarrow> string" where
  "get_habit_name self habit_id =
     (case habits self habit_id of
        Some h \<Rightarrow> get_or (h_name h) ''Unknown''
      | None \<Rightarrow> ''Unknown'')"

text \<open>
  \<^verbatim>\<open>sorted(categories.items())\<close> compares the pairs; the keys of a dict are distinct, so
  the comparison is decided by the key alone and the lists of habits are never compared.
\<close>

definition get_category_stats :: "HumaneData \<Rightarrow> (string \<times> nat \<times> int) list" where
  "get_category_stats self =
     map (\<lambda>(cat, hs). (cat, length hs, sum_list (map (\<lambda>h. get_or (h_targetPerWeek h) 0) hs)))
       (sort_key fst (get_categories self))"

section \<open>Rendering helpers\<close>

text \<open>\<^verbatim>\<open>str(n)\<close> on an integer: decimal digits, a minus sign on a negative number.\<close>

fun str_nat :: "nat \<Rightarrow> string" where
  "str_nat n =
     (if n < 10 then [''0123456789'' ! n]
      else str_nat (n div 10) @ [''0123456789'' ! (n mod 10)])"

declare str_nat.simps [simp del]

definition str_int :: "int \<Rightarrow> string" where
  "str_int i = (if i < 0 then CHR ''-'' # str_nat (nat (- i)) else str_nat (nat i))"

text \<open>
  \<^verbatim>\<open>s.capitalize()\<close>: the first character in upper case, the others in lower case. Only
  the letters \<open>a\<close> to \<open>z\<close> and \<open>A\<close> to \<open>Z\<close> are mapped here, while Python also maps the
  letters beyond them; it is used for the first cell of a row of the Categories table
  and for nothing else, so that cell alone is limited to category names in those
  letters.
\<close>

definition upper_char :: "char \<Rightarrow> char" where
  "upper_char c =
     (case map_of (zip ''abcdefghijklmnopqrstuvwxyz'' ''ABCDEFGHIJKLMNOPQRSTUVWXYZ'') c of
        Some u \<Rightarrow> u
      | None \<Rightarrow> c)"

definition lower_char :: "char \<Rightarrow> char" where
  "lower_char c =
     (case map_of (zip ''ABCDEFGHIJKLMNOPQRSTUVWXYZ'' ''abcdefghijklmnopqrstuvwxyz'') c of
        Some l \<Rightarrow> l
      | None \<Rightarrow> c)"

definition capitalize :: "string \<Rightarrow> string" where
  "capitalize s = (case s of [] \<Rightarrow> [] | c # cs \<Rightarrow> upper_char c # map lower_char cs)"

text \<open>
  \<^verbatim>\<open>sorted(xs, key=f)\<close> is a stable sort, as \<open>sort_key f\<close> is.
  \<^verbatim>\<open>sorted(xs, key=f, reverse=True)\<close> sorts in descending order of the key and still
  keeps elements of equal key in their original order: the list is reversed, sorted
  stably and reversed again.
\<close>

definition sorted_reverse :: "('a \<Rightarrow> 'k::linorder) \<Rightarrow> 'a list \<Rightarrow> 'a list" where
  "sorted_reverse f xs = rev (sort_key f (rev xs))"

section \<open>The table widget\<close>

text \<open>
  The screens show their rows in a \<^verbatim>\<open>DataTable\<close> of the Textual library. Of the widget,
  the model keeps the rows in the order of the \<^verbatim>\<open>add_row\<close> calls, each with its optional
  key, and the row of the cursor, which starts at 0 and which the widget keeps inside
  the table. The program never reads the cursor of a table without rows; the model
  leaves it at 0 there.
\<close>

type_synonym row = "string option \<times> string list"

record DataTable =
  rows :: "row list"
  cursor_row :: nat

definition new_table :: DataTable where
  "new_table = \<lparr>rows = [], cursor_row = 0\<rparr>"

definition row_count :: "DataTable \<Rightarrow> nat" where
  "row_count t = length (rows t)"

text \<open>
  \<^verbatim>\<open>add_row(cell, ..., key=k)\<close> puts the row at the bottom. The widget raises
  \<^verbatim>\<open>DuplicateKey\<close> when a row of the table already has the key \<open>k\<close>; a row added
  without a key never collides.
\<close>

definition add_row :: "string list \<Rightarrow> string option \<Rightarrow> DataTable \<Rightarrow> py_error + DataTable" where
  "add_row cs k t =
     (if k \<noteq> None \<and> k \<in> set (map fst (rows t)) then Inl DuplicateKey
      else Inr (t\<lparr>rows := rows t @ [(k, cs)]\<rparr>))"

definition table_cursor_down :: "DataTable \<Rightarrow> DataTable" where
  "table_cursor_down t =
     (if cursor_row t + 1 < row_count t then t\<lparr>cursor_row := cursor_row t + 1\<rparr> else t)"

definition table_cursor_up :: "DataTable \<Rightarrow> DataTable" where
  "table_cursor_up t = (if 0 < cursor_row t then t\<lparr>cursor_row := cursor_row t - 1\<rparr> else t)"

text \<open>\<^verbatim>\<open>move_cursor(row=r)\<close>: the widget clamps \<open>r\<close> to the rows of the table.\<close>

definition move_cursor :: "int \<Rightarrow> DataTable \<Rightarrow> DataTable" where
  "move_cursor r t =
     t\<lparr>cursor_row := (if row_count t = 0 then 0 else nat (max 0 (min r (int (row_count t) - 1))))\<rparr>"

section \<open>The screens\<close>

text \<open>
  A screen object keeps the attributes its \<^verbatim>\<open>__init__\<close> sets and the table its
  \<^verbatim>\<open>on_mount\<close> fills: \<open>HabitsScreen category habits table\<close>,
  \<open>EntriesScreen habit_id habit_name entries table\<close>.
\<close>

datatype screen =
    CategoriesScreen DataTable
  | HabitsScreen string "habit list" DataTable
  | EntriesScreen string string "entry list" DataTable
  | HelpScreen

text \<open>The loop of \<^verbatim>\<open>CategoriesScreen.on_mount\<close>.\<close>

fun categories_add_rows :: "(string \<times> nat \<times> int) list \<Rightarrow> DataTable \<Rightarrow> py_error + DataTable" where
  "categories_add_rows [] table = Inr table"
| "categories_add_rows ((cat, habit_count, target) # stats) table =
     (case add_row [capitalize cat, str_nat habit_count, str_int target] (Some cat) table of
        Inl e \<Rightarrow> Inl e
      | Inr table' \<Rightarrow> categories_add_rows stats table')"

definition CategoriesScreen_on_mount :: "HumaneData \<Rightarrow> py_error + DataTable" where
  "CategoriesScreen_on_mount humane_data =
     categories_add_rows (get_category_stats humane_data) new_table"

text \<open>
  The cells of the row of a habit whose id is \<open>i\<close>: the name (\<open>''Unknown''\<close> when
  absent), the weekly target and the number of entries of \<open>i\<close>.
\<close>

definition habit_cells :: "HumaneData \<Rightarrow> habit \<Rightarrow> string \<Rightarrow> string list" where
  "habit_cells humane_data h i =
     [get_or (h_name h) ''Unknown'',
      str_int (get_or (h_targetPerWeek h) 0),
      str_nat (length (get_entries_for_habit humane_data i))]"

text \<open>The sort key of the Habits screen, \<^verbatim>\<open>lambda h: h.get("name", "")\<close>.\<close>

definition name_key :: "habit \<Rightarrow> string" where
  "name_key h = get_or (h_name h) []"

text \<open>The loop of \<^verbatim>\<open>HabitsScreen.on_mount\<close>; \<^verbatim>\<open>habit["id"]\<close> raises KeyError.\<close>

fun habits_add_rows :: "HumaneData \<Rightarrow> habit list \<Rightarrow> DataTable \<Rightarrow> py_error + DataTable" where
  "habits_add_rows humane_data [] table = Inr table"
| "habits_add_rows humane_data (h # hs) table =
     (case h_id h of
        None \<Rightarrow> Inl KeyError
      | Some i \<Rightarrow>
          (case add_row (habit_cells humane_data h i) (Some i) table of
             Inl e \<Rightarrow> Inl e
           | Inr table' \<Rightarrow> habits_add_rows humane_data hs table'))"

definition HabitsScreen_on_mount :: "HumaneData \<Rightarrow> habit list \<Rightarrow> py_error + DataTable" where
  "HabitsScreen_on_mount humane_data hs =
     habits_add_rows humane_data (sort_key name_key hs) new_table"

text \<open>The sort key of the Entries screen, \<^verbatim>\<open>lambda e: e.get("date", "")\<close>.\<close>

definition date_key :: "entry \<Rightarrow> string" where
  "date_key e = get_or (e_date e) []"

definition entry_row :: "entry \<Rightarrow> string list" where
  "entry_row e =
     [take 10 (get_or (e_date e) []),
      str_int (get_or (e_value e) 0),
      take 10 (get_or (e_createdAt e) [])]"

text \<open>The loop of \<^verbatim>\<open>EntriesScreen.on_mount\<close>, then the row for a habit without entries.\<close>

fun entries_add_rows :: "entry list \<Rightarrow> DataTable \<Rightarrow> py_error + DataTable" where
  "entries_add_rows [] table = Inr table"
| "entries_add_rows (e # es) table =
     (case add_row (entry_row e) None table of
        Inl err \<Rightarrow> Inl err
      | Inr table' \<Rightarrow> entries_add_rows es table')"

definition EntriesScreen_on_mount :: "entry list \<Rightarrow> py_error + DataTable" where
  "EntriesScreen_on_mount es =
     (case entries_add_rows (sorted_reverse date_key es) new_table of
        Inl err \<Rightarrow> Inl err
      | Inr table \<Rightarrow>
          (if es = [] then add_row [''No entries'', ''-'', ''-''] None table else Inr table))"

text \<open>Constructing a screen and mounting it, as \<^verbatim>\<open>push_screen(XScreen(...))\<close> does.\<close>

definition new_CategoriesScreen :: "HumaneData \<Rightarrow> py_error + screen" where
  "new_CategoriesScreen humane_data =
     (case CategoriesScreen_on_mount humane_data of
        Inl e \<Rightarrow> Inl e
      | Inr table \<Rightarrow> Inr (CategoriesScreen table))"

definition new_HabitsScreen :: "HumaneData \<Rightarrow> string \<Rightarrow> py_error + screen" where
  "new_HabitsScreen humane_data category =
     (let hs = get_habits_by_category humane_data category
      in case HabitsScreen_on_mount humane_data hs of
           Inl e \<Rightarrow> Inl e
         | Inr table \<Rightarrow> Inr (HabitsScreen category hs table))"

definition new_EntriesScreen :: "HumaneData \<Rightarrow> string \<Rightarrow> py_error + screen" where
  "new_EntriesScreen humane_data habit_id =
     (let es = get_entries_for_habit humane_data habit_id
      in case EntriesScreen_on_mount es of
           Inl e \<Rightarrow> Inl e
         | Inr table \<Rightarrow>
             Inr (EntriesScreen habit_id (get_habit_name humane_data habit_id) es table))"

text \<open>What a screen shows: the cells of the rows of its table, from the top.\<close>

definition table_cells :: "DataTable \<Rightarrow> string list list" where
  "table_cells t = map snd (rows t)"

fun screen_cells :: "screen \<Rightarrow> string list list" where
  "screen_cells (CategoriesScreen t) = table_cells t"
| "screen_cells (HabitsScreen c hs t) = table_cells t"
| "screen_cells (EntriesScreen i n es t) = table_cells t"
| "screen_cells HelpScreen = []"

definition HabitsScreen_rows :: "HumaneData \<Rightarrow> string \<Rightarrow> py_error + string list list" where
  "HabitsScreen_rows humane_data category =
     (case new_HabitsScreen humane_data category of
        Inl e \<Rightarrow> Inl e
      | Inr s \<Rightarrow> Inr (screen_cells s))"

definition EntriesScreen_rows :: "HumaneData \<Rightarrow> string \<Rightarrow> py_error + string list list" where
  "EntriesScreen_rows humane_data habit_id =
     (case new_EntriesScreen humane_data habit_id of
        Inl e \<Rightarrow> Inl e
      | Inr s \<Rightarrow> Inr (screen_cells s))"

section \<open>The application: a stack of screens\<close>

text \<open>
  \<^verbatim>\<open>HumaneCLI\<close> is a Textual \<^verbatim>\<open>App\<close>. \<open>screen_stack\<close> holds the screens the program has
  pushed, the visible one first; the library's own blank screen below them is not
  counted. \<^verbatim>\<open>push_screen\<close> puts a screen on top and leaves the ones below as they are,
  \<^verbatim>\<open>pop_screen\<close> removes the top one and fails when the program has pushed nothing.
  \<open>running\<close> is false once \<^verbatim>\<open>action_quit\<close> has run.
\<close>

record HumaneCLI =
  humane_data :: HumaneData
  screen_stack :: "screen list"
  running :: bool

definition HumaneCLI_init ::
  "string option \<Rightarrow> HumaneData option \<Rightarrow> (string \<Rightarrow> py_error + snapshot) \<Rightarrow> py_error + HumaneCLI" where
  "HumaneCLI_init filepath hdata read_json =
     (case hdata of
        Some d \<Rightarrow> Inr \<lparr>humane_data = d, screen_stack = [], running = True\<rparr>
      | None \<Rightarrow>
          (case filepath of
             Some p \<Rightarrow>
               (if p \<noteq> [] then
                  (case HumaneData_init (Some p) None read_json of
                     Inl e \<Rightarrow> Inl e
                   | Inr d \<Rightarrow> Inr \<lparr>humane_data = d, screen_stack = [], running = True\<rparr>)
                else Inl ValueError)
           | None \<Rightarrow> Inl ValueError))"

definition push_screen :: "screen \<Rightarrow> HumaneCLI \<Rightarrow> HumaneCLI" where
  "push_screen s app = app\<lparr>screen_stack := s # screen_stack app\<rparr>"

definition pop_screen :: "HumaneCLI \<Rightarrow> py_error + HumaneCLI" where
  "pop_screen app =
     (case screen_stack app of
        [] \<Rightarrow> Inl ScreenStackError
      | s # rest \<Rightarrow> Inr (app\<lparr>screen_stack := rest\<rparr>))"

definition HumaneCLI_on_mount :: "HumaneCLI \<Rightarrow> py_error + HumaneCLI" where
  "HumaneCLI_on_mount app =
     (case new_CategoriesScreen (humane_data app) of
        Inl e \<Rightarrow> Inl e
      | Inr s \<Rightarrow> Inr (push_screen s app))"

text \<open>The visible screen changes its own table in place.\<close>

definition set_top :: "screen \<Rightarrow> HumaneCLI \<Rightarrow> HumaneCLI" where
  "set_top s app = app\<lparr>screen_stack := s # tl (screen_stack app)\<rparr>"

subsection \<open>Key bindings\<close>

datatype action = Cursor_down | Cursor_up | Select | Back | Quit | Help | Go_top | Go_bottom

definition CategoriesScreen_BINDINGS :: "(string \<times> action) list" where
  "CategoriesScreen_BINDINGS =
     [(''j'', Cursor_down), (''k'', Cursor_up), (''enter'', Select), (''l'', Select),
      (''q'', Quit), (''?'', Help)]"

definition HabitsScreen_BINDINGS :: "(string \<times> action) list" where
  "HabitsScreen_BINDINGS =
     [(''j'', Cursor_down), (''k'', Cursor_up), (''enter'', Select), (''l'', Select),
      (''h'', Back), (''escape'', Back), (''q'', Quit), (''?'', Help)]"

definition EntriesScreen_BINDINGS :: "(string \<times> action) list" where
  "EntriesScreen_BINDINGS =
     [(''j'', Cursor_down), (''k'', Cursor_up), (''h'', Back), (''escape'', Back),
      (''q'', Quit), (''?'', Help), (''g'', Go_top), (''G'', Go_bottom)]"

definition HelpScreen_BINDINGS :: "(string \<times> action) list" where
  "HelpScreen_BINDINGS = [(''escape'', Back), (''q'', Back), (''?'', Back)]"

definition HumaneCLI_BINDINGS :: "(string \<times> action) list" where
  "HumaneCLI_BINDINGS = [(''q'', Quit)]"

fun BINDINGS :: "screen \<Rightarrow> (string \<times> action) list" where
  "BINDINGS (CategoriesScreen t) = CategoriesScreen_BINDINGS"
| "BINDINGS (HabitsScreen c hs t) = HabitsScreen_BINDINGS"
| "BINDINGS (EntriesScreen i n es t) = EntriesScreen_BINDINGS"
| "BINDINGS HelpScreen = HelpScreen_BINDINGS"

text \<open>A key is looked up in the bindings of the visible screen, then in those of the app.\<close>

definition find_binding :: "screen list \<Rightarrow> string \<Rightarrow> action option" where
  "find_binding stack key =
     (case (case stack of [] \<Rightarrow> None | s # rest \<Rightarrow> map_of (BINDINGS s) key) of
        Some a \<Rightarrow> Some a
      | None \<Rightarrow> map_of HumaneCLI_BINDINGS key)"

subsection \<open>Actions\<close>

text \<open>
  \<^verbatim>\<open>str(table.coordinate_to_cell_key((table.cursor_row, 0)).row_key.value)\<close>: the key of
  the row under the cursor; the widget raises when there is no such row.
\<close>

definition cursor_key :: "DataTable \<Rightarrow> py_error + string" where
  "cursor_key t =
     (if cursor_row t < row_count t then
        Inr (case fst (rows t ! cursor_row t) of Some k \<Rightarrow> k | None \<Rightarrow> ''None'')
      else Inl CellDoesNotExist)"

definition push_HabitsScreen :: "HumaneCLI \<Rightarrow> string \<Rightarrow> py_error + HumaneCLI" where
  "push_HabitsScreen app category =
     (case new_HabitsScreen (humane_data app) category of
        Inl e \<Rightarrow> Inl e
      | Inr s \<Rightarrow> Inr (push_screen s app))"

definition push_EntriesScreen :: "HumaneCLI \<Rightarrow> string \<Rightarrow> py_error + HumaneCLI" where
  "push_EntriesScreen app habit_id =
     (case new_EntriesScreen (humane_data app) habit_id of
        Inl e \<Rightarrow> Inl e
      | Inr s \<Rightarrow> Inr (push_screen s app))"

text \<open>
  \<open>screen_action app s a\<close> runs the method \<^verbatim>\<open>action_a\<close> of the visible screen \<open>s\<close>. A
  screen without that method does nothing. \<^verbatim>\<open>quit\<close> is the app's own action.
\<close>

fun screen_action :: "HumaneCLI \<Rightarrow> screen \<Rightarrow> action \<Rightarrow> py_error + HumaneCLI" where
  "screen_action app s Quit = Inr (app\<lparr>running := False\<rparr>)"
| "screen_action app (CategoriesScreen t) Cursor_down =
     Inr (set_top (CategoriesScreen (table_cursor_down t)) app)"
| "screen_action app (CategoriesScreen t) Cursor_up =
     Inr (set_top (CategoriesScreen (table_cursor_up t)) app)"
| "screen_action app (CategoriesScreen t) Select =
     (if row_count t > 0 then
        (case cursor_key t of
           Inl e \<Rightarrow> Inl e
         | Inr category \<Rightarrow> push_HabitsScreen app category)
      else Inr app)"
| "screen_action app (CategoriesScreen t) Help = Inr (push_screen HelpScreen app)"
| "screen_action app (HabitsScreen c hs t) Cursor_down =
     Inr (set_top (HabitsScreen c hs (table_cursor_down t)) app)"
| "screen_action app (HabitsScreen c hs t) Cursor_up =
     Inr (set_top (HabitsScreen c hs (table_cursor_up t)) app)"
| "screen_action app (HabitsScreen c hs t) Select =
     (if row_count t > 0 then
        (case cursor_key t of
           Inl e \<Rightarrow> Inl e
         | Inr habit_id \<Rightarrow> push_EntriesScreen app habit_id)
      else Inr app)"
| "screen_action app (HabitsScreen c hs t) Back = pop_screen app"
| "screen_action app (HabitsScreen c hs t) Help = Inr (push_screen HelpScreen app)"
| "screen_action app (EntriesScreen i n es t) Cursor_down =
     Inr (set_top (EntriesScreen i n es (table_cursor_down t)) app)"
| "screen_action app (EntriesScreen i n es t) Cursor_up =
     Inr (set_top (EntriesScreen i n es (table_cursor_up t)) app)"
| "screen_action app (EntriesScreen i n es t) Back = pop_screen app"
| "screen_action app (EntriesScreen i n es t) Help = Inr (push_screen HelpScreen app)"
| "screen_action app (EntriesScreen i n es t) Go_top =
     Inr (set_top (EntriesScreen i n es (move_cursor 0 t)) app)"
| "screen_action app (EntriesScreen i n es t) Go_bottom =
     Inr (set_top (EntriesScreen i n es (move_cursor (int (row_count t) - 1) t)) app)"
| "screen_action app HelpScreen Back = pop_screen app"
| "screen_action app s a = Inr app"

definition run_action :: "HumaneCLI \<Rightarrow> action \<Rightarrow> py_error + HumaneCLI" where
  "run_action app a =
     (case screen_stack app of
        [] \<Rightarrow> (if a = Quit then Inr (app\<lparr>running := False\<rparr>) else Inr app)
      | s # rest \<Rightarrow> screen_action app s a)"

subsection \<open>Events\<close>

text \<open>
  The app handles one event at a time: a key press, or the table's message that the row
  with a given key was selected (\<^verbatim>\<open>DataTable.RowSelected\<close>), which the Categories and
  the Habits screen handle in \<^verbatim>\<open>on_row_selected\<close>. The keys are those of the
  \<^verbatim>\<open>BINDINGS\<close> of the program; a key that only the table widget binds for itself (an
  arrow key) moves the cursor inside the table and is not an event here.
\<close>

datatype event = Key string | RowSelected string

definition on_key :: "HumaneCLI \<Rightarrow> string \<Rightarrow> py_error + HumaneCLI" where
  "on_key app key =
     (case find_binding (screen_stack app) key of
        None \<Rightarrow> Inr app
      | Some a \<Rightarrow> run_action app a)"

definition on_row_selected :: "HumaneCLI \<Rightarrow> string \<Rightarrow> py_error + HumaneCLI" where
  "on_row_selected app k =
     (case screen_stack app of
        CategoriesScreen t # rest \<Rightarrow> push_HabitsScreen app k
      | HabitsScreen c hs t # rest \<Rightarrow> push_EntriesScreen app k
      | _ \<Rightarrow> Inr app)"

definition step :: "HumaneCLI \<Rightarrow> event \<Rightarrow> py_error + HumaneCLI" where
  "step app ev =
     (if running app then
        (case ev of Key k \<Rightarrow> on_key app k | RowSelected k \<Rightarrow> on_row_selected app k)
      else Inr app)"

fun run :: "HumaneCLI \<Rightarrow> event list \<Rightarrow> py_error + HumaneCLI" where
  "run app [] = Inr app"
| "run app (ev # evs) = (case step app ev of Inl e \<Rightarrow> Inl e | Inr app' \<Rightarrow> run app' evs)"

text \<open>
  The app as it starts on an accessor: constructed, then mounted; and a session: the
  start, then the events in their order. A session runs the handlers of the program;
  what the library does with a table between two events (drawing its cells) is not part
  of it.
\<close>

definition start :: "HumaneData \<Rightarrow> py_error + HumaneCLI" where
  "start hdata = HumaneCLI_on_mount \<lparr>humane_data = hdata, screen_stack = [], running = True\<rparr>"

definition session :: "HumaneData \<Rightarrow> event list \<Rightarrow> py_error + HumaneCLI" where
  "session hdata evs = (case start hdata of Inl e \<Rightarrow> Inl e | Inr app \<Rightarrow> run app evs)"

section \<open>Grouping, as a function of the list\<close>

definition group_by :: "('v \<Rightarrow> 'k) \<Rightarrow> 'v list \<Rightarrow> ('k \<times> 'v list) list" where
  "group_by f xs = foldl (\<lambda>cs x. dict_append (f x) x cs) [] xs"

section \<open>Rows, as functions of the habit\<close>

text \<open>The row of the Habits table for a habit: its key is the id of the habit.\<close>

definition habit_row :: "HumaneData \<Rightarrow> habit \<Rightarrow> row" where
  "habit_row self h = (h_id h, habit_cells self h (get_or (h_id h) []))"

text \<open>The row of the Categories table for a row of the statistics.\<close>

definition category_row :: "string \<times> nat \<times> int \<Rightarrow> row" where
  "category_row st =
     (case st of (cat, n, target) \<Rightarrow> (Some cat, [capitalize cat, str_nat n, str_int target]))"

text \<open>The first column of a table, the names on the Habits screen.\<close>

definition first_column :: "string list list \<Rightarrow> string list" where
  "first_column rs = map (\<lambda>r. case r of [] \<Rightarrow> [] | c # cs \<Rightarrow> c) rs"

section \<open>Well-formed states of the application\<close>

fun is_CategoriesScreen :: "screen \<Rightarrow> bool" where
  "is_CategoriesScreen (CategoriesScreen t) = True"
| "is_CategoriesScreen s = False"

text \<open>The cursor of a table is on one of its rows, or on row 0 of an empty table.\<close>

definition valid_table :: "DataTable \<Rightarrow> bool" where
  "valid_table t = (cursor_row t = 0 \<or> cursor_row t < row_count t)"

fun valid_screen :: "screen \<Rightarrow> bool" where
  "valid_screen (CategoriesScreen t) = valid_table t"
| "valid_screen (HabitsScreen c hs t) = valid_table t"
| "valid_screen (EntriesScreen i n es t) = valid_table t"
| "valid_screen HelpScreen = True"

text \<open>The shape of the stack: not empty, the Categories screen at the bottom.\<close>

definition stack_inv :: "HumaneCLI \<Rightarrow> bool" where
  "stack_inv app =
     (screen_stack app \<noteq> [] \<and> is_CategoriesScreen (last (screen_stack app)))"

text \<open>The habits of an accessor all have an id, and no two of them the same.\<close>

definition unique_ids :: "HumaneData \<Rightarrow> bool" where
  "unique_ids self =
     (list_all (\<lambda>h. h_id h \<noteq> None) (habits_list (data self)) \<and>
      distinct (map h_id (habits_list (data self))))"

text \<open>
  The states in which no event fails: the stack has its shape, every cursor is inside
  its table, and the habits of the accessor have unique ids.
\<close>

definition app_inv :: "HumaneCLI \<Rightarrow> bool" where
  "app_inv app =
     (stack_inv app \<and>
      list_all valid_screen (screen_stack app) \<and>
      unique_ids (humane_data app))"

section \<open>Example snapshots\<close>

text \<open>The snapshot of the test suite (\<^verbatim>\<open>TEST_DATA\<close> in \<^verbatim>\<open>test_humane_cli.py\<close>).\<close>

definition habit1 :: habit where
  "habit1 = \<lparr>h_id = Some ''habit1'', h_name = Some ''Morning Run'',
              h_category = Some ''fitness'', h_targetPerWeek = Some 3\<rparr>"

definition habit2 :: habit where
  "habit2 = \<lparr>h_id = Some ''habit2'', h_name = Some ''Meditation'',
              h_category = Some ''wellness'', h_targetPerWeek = Some 7\<rparr>"

definition habit3 :: habit where
  "habit3 = \<lparr>h_id = Some ''habit3'', h_name = Some ''Evening Walk'',
              h_category = Some ''fitness'', h_targetPerWeek = Some 5\<rparr>"

definition e1 :: entry where
  "e1 = \<lparr>e_habitId = Some ''habit1'', e_date = Some ''2025-11-28'', e_value = Some 1,
          e_createdAt = Some ''2025-11-28T10:00:00Z''\<rparr>"

definition e2 :: entry where
  "e2 = \<lparr>e_habitId = Some ''habit1'', e_date = Some ''2025-11-27'', e_value = Some 1,
          e_createdAt = Some ''2025-11-27T10:00:00Z''\<rparr>"

definition e3 :: entry where
  "e3 = \<lparr>e_habitId = Some ''habit2'', e_date = Some ''2025-11-28'', e_value = Some 1,
          e_createdAt = Some ''2025-11-28T08:00:00Z''\<rparr>"

definition TEST_DATA :: snapshot where
  "TEST_DATA = \<lparr>habits_key = Some [habit1, habit2, habit3], entries_key = Some [e1, e2, e3]\<rparr>"

text \<open>A file system on which every read fails.\<close>

definition no_files :: "string \<Rightarrow> py_error + snapshot" where
  "no_files p = Inl LoadError"

definition test_humane_data :: HumaneData where
  "test_humane_data =
     \<lparr>data = TEST_DATA,
      habits = [''habit1'' \<mapsto> habit1, ''habit2'' \<mapsto> habit2, ''habit3'' \<mapsto> habit3],
      entries = [e1, e2, e3]\<rparr>"

text \<open>A habit without a category.\<close>

definition habit_nocat :: habit where
  "habit_nocat = \<lparr>h_id = Some ''habit4'', h_name = Some ''Reading'',
                   h_category = None, h_targetPerWeek = Some 2\<rparr>"

definition uncategorized_data :: snapshot where
  "uncategorized_data = \<lparr>habits_key = Some [habit_nocat], entries_key = None\<rparr>"

definition uncategorized_humane_data :: HumaneData where
  "uncategorized_humane_data =
     \<lparr>data = uncategorized_data, habits = [''habit4'' \<mapsto> habit_nocat], entries = []\<rparr>"

text \<open>An entry of a habit that the snapshot does not have.\<close>

definition orphan_entry :: entry where
  "orphan_entry = \<lparr>e_habitId = Some ''ghost'', e_date = Some ''2025-11-28'', e_value = Some 1,
                    e_createdAt = Some ''2025-11-28T10:00:00Z''\<rparr>"

definition orphan_data :: snapshot where
  "orphan_data = \<lparr>habits_key = Some [habit1], entries_key = Some [orphan_entry]\<rparr>"

definition orphan_humane_data :: HumaneData where
  "orphan_humane_data =
     \<lparr>data = orphan_data, habits = [''habit1'' \<mapsto> habit1], entries = [orphan_entry]\<rparr>"

text \<open>A habit without an id.\<close>

definition habit_noid :: habit where
  "habit_noid = \<lparr>h_id = None, h_name = Some ''Stretch'',
                  h_category = Some ''fitness'', h_targetPerWeek = Some 1\<rparr>"

definition noid_data :: snapshot where
  "noid_data = \<lparr>habits_key = Some [habit1, habit_noid], entries_key = Some []\<rparr>"

text \<open>Two entries of one day that differ after the tenth character, and an earlier day.\<close>

definition t1 :: entry where
  "t1 = \<lparr>e_habitId = Some ''habit1'', e_date = Some ''2025-11-27'', e_value = Some 3,
          e_createdAt = Some ''2025-11-27T09:00:00Z''\<rparr>"

definition t2 :: entry where
  "t2 = \<lparr>e_habitId = Some ''habit1'', e_date = Some ''2025-11-28T08:00:00Z'', e_value = Some 1,
          e_createdAt = Some ''2025-11-28T08:00:00Z''\<rparr>"

definition t3 :: entry where
  "t3 = \<lparr>e_habitId = Some ''habit1'', e_date = Some ''2025-11-28T10:00:00Z'', e_value = Some 2,
          e_createdAt = Some ''2025-11-28T10:00:00Z''\<rparr>"

definition t4 :: entry where
  "t4 = \<lparr>e_habitId = Some ''habit1'', e_date = Some ''2025-11-27'', e_value = Some 4,
          e_createdAt = None\<rparr>"

definition times_data :: snapshot where
  "times_data =
     \<lparr>habits_key = Some [habit1, habit2], entries_key = Some [t1, e3, t2, t3, t4]\<rparr>"

definition times_humane_data :: HumaneData where
  "times_humane_data =
     \<lparr>data = times_data,
      habits = [''habit1'' \<mapsto> habit1, ''habit2'' \<mapsto> habit2],
      entries = [t1, e3, t2, t3, t4]\<rparr>"

text \<open>
  A habit without a name, beside two named ones of the same category whose names differ
  in the case of the first letter.
\<close>

definition habit_noname :: habit where
  "habit_noname = \<lparr>h_id = Some ''habit5'', h_name = None,
                    h_category = Some ''fitness'', h_targetPerWeek = Some 4\<rparr>"

definition habit_lower :: habit where
  "habit_lower = \<lparr>h_id = Some ''habit6'', h_name = Some ''evening stretch'',
                   h_category = Some ''fitness'', h_targetPerWeek = None\<rparr>"

definition noname_data :: snapshot where
  "noname_data =
     \<lparr>habits_key = Some [habit_lower, habit2, habit3, habit_noname], entries_key = Some [e3]\<rparr>"

definition noname_humane_data :: HumaneData where
  "noname_humane_data =
     \<lparr>data = noname_data,
      habits = [''habit6'' \<mapsto> habit_lower, ''habit2'' \<mapsto> habit2, ''habit3'' \<mapsto> habit3,
                ''habit5'' \<mapsto> habit_noname],
      entries = [e3]\<rparr>"

text \<open>The test application with the cursor of the Categories screen on its second row.\<close>

definition test_app :: HumaneCLI where
  "test_app =
     \<lparr>humane_data = test_humane_data,
      screen_stack =
        [CategoriesScreen
           \<lparr>rows = [(Some ''fitness'', [''Fitness'', ''2'', ''8'']),
                    (Some ''wellness'', [''Wellness'', ''1'', ''7''])],
            cursor_row = 1\<rparr>],
      running = True\<rparr>"

text \<open>Two habits of one category with the same id.\<close>

definition habit1_again :: habit where
  "habit1_again = \<lparr>h_id = Some ''habit1'', h_name = Some ''Night Run'',
                    h_category = Some ''fitness'', h_targetPerWeek = Some 1\<rparr>"

definition twice_data :: snapshot where
  "twice_data = \<lparr>habits_key = Some [habit1, habit1_again], entries_key = None\<rparr>"

definition twice_humane_data :: HumaneData where
  "twice_humane_data =
     \<lparr>data = twice_data, habits = [''habit1'' \<mapsto> habit1_again], entries = []\<rparr>"

section \<open>Properties of the accessor\<close>

lemmas accessor_defs =
  HumaneData_init_def load_data_def habits_list_def entries_list_def get_or_def
  get_categories_def category_of_def get_habits_by_category_def get_entries_for_habit_def
  get_habit_name_def get_category_stats_def

lemmas example_defs =
  habit1_def habit2_def habit3_def e1_def e2_def e3_def TEST_DATA_def no_files_def
  test_humane_data_def habit_nocat_def uncategorized_data_def uncategorized_humane_data_def
  orphan_entry_def orphan_data_def orphan_humane_data_def habit_noid_def noid_data_def
  t1_def t2_def t3_def t4_def times_data_def times_humane_data_def
  habit_noname_def habit_lower_def noname_data_def noname_humane_data_def
  habit1_again_def twice_data_def twice_humane_data_def

lemma init_test: "HumaneData_init None (Some TEST_DATA) no_files = Inr test_humane_data"
  by (simp add: accessor_defs example_defs)

lemma stats_test:
  "get_category_stats test_humane_data = [(''fitness'', 2, 8), (''wellness'', 1, 7)]"
  by (simp add: accessor_defs example_defs)

subsection \<open>Construction\<close>

lemma HumaneData_init_Inr:
  "HumaneData_init filepath dat read_json = Inr self \<Longrightarrow>
     \<exists>d m. load_data filepath dat read_json = Inr d \<and>
           build_habits (habits_list d) Map.empty = Inr m \<and>
           self = \<lparr>data = d, habits = m, entries = entries_list d\<rparr>"
  by (auto simp: HumaneData_init_def split: sum.splits)

lemma build_habits_miss:
  "build_habits hs m = Inr m' \<Longrightarrow> \<forall>h\<in>set hs. h_id h \<noteq> Some i \<Longrightarrow> m' i = m i"
  by (induction hs arbitrary: m) (auto split: option.splits)

lemma build_habits_KeyError:
  "\<exists>h\<in>set hs. h_id h = None \<Longrightarrow> build_habits hs m = Inl KeyError"
  by (induction hs arbitrary: m) (auto split: option.splits)

lemma build_habits_total:
  "\<forall>h\<in>set hs. h_id h \<noteq> None \<Longrightarrow> \<exists>m'. build_habits hs m = Inr m'"
  by (induction hs arbitrary: m) (auto split: option.splits)

lemma build_habits_Inr_ids:
  "build_habits hs m = Inr m' \<Longrightarrow> \<forall>h\<in>set hs. h_id h \<noteq> None"
  by (induction hs arbitrary: m) (auto split: option.splits)

lemma loaded_habits_have_id:
  assumes "HumaneData_init filepath dat read_json = Inr self"
  shows "\<forall>h\<in>set (habits_list (data self)). h_id h \<noteq> None"
proof -
  from HumaneData_init_Inr [OF assms] obtain d m where
    m: "build_habits (habits_list d) Map.empty = Inr m" and self: "data self = d"
    by auto
  show ?thesis
    using build_habits_Inr_ids [OF m] by (simp add: self)
qed

text \<open>
  Claim C6, as the code has it. With neither a path nor a structure (the path \<^verbatim>\<open>None\<close> or
  empty) the constructor fails with \<^verbatim>\<open>ValueError\<close>, the program's configuration error.
  With a structure \<open>d\<close>, alone or beside a path, it is never that error: the result does
  not depend on the path or on the files, an accessor is returned exactly when every
  habit of \<open>d\<close> has an id, and the accessor holds \<open>d\<close> itself and the entries of \<open>d\<close>.
  With a path alone the file is read, and the result is that of the structure read. A
  failed construction returns the error and no accessor.
\<close>

theorem init_source_choice:
  "HumaneData_init None None read_json = Inl ValueError \<and>
   HumaneData_init (Some []) None read_json = Inl ValueError \<and>
   HumaneData_init filepath (Some d) read_json \<noteq> Inl ValueError \<and>
   HumaneData_init filepath (Some d) read_json = HumaneData_init filepath' (Some d) read_json' \<and>
   ((\<exists>self. HumaneData_init filepath (Some d) read_json = Inr self) =
      (\<forall>h\<in>set (habits_list d). h_id h \<noteq> None)) \<and>
   (\<forall>self. HumaneData_init filepath (Some d) read_json = Inr self \<longrightarrow>
      data self = d \<and> entries self = entries_list d) \<and>
   (p \<noteq> [] \<longrightarrow>
      HumaneData_init (Some p) None read_json =
        (case read_json p of
           Inl e \<Rightarrow> Inl e
         | Inr d' \<Rightarrow> HumaneData_init None (Some d') read_json))"
proof -
  have ld: "load_data filepath (Some d) read_json = Inr d" for filepath read_json
    by (simp add: load_data_def)
  have no_ValueError: "build_habits hs m \<noteq> Inl ValueError" for hs and m :: "string \<rightharpoonup> habit"
    by (induction hs arbitrary: m) (auto split: option.splits)
  have "HumaneData_init filepath (Some d) read_json \<noteq> Inl ValueError"
    using no_ValueError [of "habits_list d" Map.empty]
    by (auto simp: HumaneData_init_def ld split: sum.splits)
  moreover
  have "(\<exists>self. HumaneData_init filepath (Some d) read_json = Inr self) =
      (\<forall>h\<in>set (habits_list d). h_id h \<noteq> None)"
  proof
    assume "\<exists>self. HumaneData_init filepath (Some d) read_json = Inr self"
    then obtain self where s: "HumaneData_init filepath (Some d) read_json = Inr self" ..
    from HumaneData_init_Inr [OF s] have "data self = d" by (auto simp: ld)
    with loaded_habits_have_id [OF s] show "\<forall>h\<in>set (habits_list d). h_id h \<noteq> None"
      by simp
  next
    assume "\<forall>h\<in>set (habits_list d). h_id h \<noteq> None"
    from build_habits_total [OF this, of Map.empty]
    show "\<exists>self. HumaneData_init filepath (Some d) read_json = Inr self"
      by (auto simp: HumaneData_init_def ld)
  qed
  moreover
  have "\<forall>self. HumaneData_init filepath (Some d) read_json = Inr self \<longrightarrow>
      data self = d \<and> entries self = entries_list d"
    by (auto simp: HumaneData_init_def ld split: sum.splits)
  moreover
  have "p \<noteq> [] \<longrightarrow>
      HumaneData_init (Some p) None read_json =
        (case read_json p of
           Inl e \<Rightarrow> Inl e
         | Inr d' \<Rightarrow> HumaneData_init None (Some d') read_json)"
    by (simp add: HumaneData_init_def load_data_def split: sum.splits)
  ultimately show ?thesis
    by (simp add: HumaneData_init_def load_data_def)
qed

text \<open>
  On \<open>times_data\<close> given beside a path, with no file that can be read: the accessor of
  \<open>times_data\<close> is returned.
\<close>

theorem init_source_choice_witness:
  "HumaneData_init (Some ''other.json'') (Some times_data) no_files = Inr times_humane_data \<and>
   data times_humane_data = times_data \<and>
   entries times_humane_data = entries_list times_data \<and>
   HumaneData_init (Some ''other.json'') None no_files = Inl LoadError"
proof -
  have a: "HumaneData_init (Some ''other.json'') (Some times_data) no_files = Inr times_humane_data"
    by (simp add: accessor_defs example_defs)
  have b: "no_files ''other.json'' = Inl LoadError"
    by (simp add: no_files_def)
  show ?thesis
    using init_source_choice [of no_files "Some ''other.json''" times_data _ _ "''other.json''"]
      a b
    by auto
qed

text \<open>
  Claim C6 as stated says that a path and a structure together are rejected. On the test
  snapshot, given with a path, the constructor returns the accessor of the snapshot.
\<close>

theorem both_sources_counterexample:
  "HumaneData_init (Some ''backup.json'') (Some TEST_DATA) no_files = Inr test_humane_data"
  by (simp add: accessor_defs example_defs)

text \<open>
  Claim C10. Once the structure to load is known, a habit without an \<^verbatim>\<open>"id"\<close> key makes
  the constructor raise \<^verbatim>\<open>KeyError\<close>; an accessor exists exactly when every habit of the
  snapshot has an id, so every operation of an accessor runs under that precondition.
\<close>

theorem missing_id_KeyError:
  assumes "load_data filepath dat read_json = Inr d"
  shows "((\<exists>h\<in>set (habits_list d). h_id h = None) \<longrightarrow>
            HumaneData_init filepath dat read_json = Inl KeyError) \<and>
         ((\<exists>self. HumaneData_init filepath dat read_json = Inr self) =
            (\<forall>h\<in>set (habits_list d). h_id h \<noteq> None))"
proof (intro conjI impI)
  assume "\<exists>h\<in>set (habits_list d). h_id h = None"
  then show "HumaneData_init filepath dat read_json = Inl KeyError"
    by (simp add: HumaneData_init_def assms build_habits_KeyError)
next
  show "(\<exists>self. HumaneData_init filepath dat read_json = Inr self) =
        (\<forall>h\<in>set (habits_list d). h_id h \<noteq> None)"
  proof
    assume "\<exists>self. HumaneData_init filepath dat read_json = Inr self"
    then obtain self where s: "HumaneData_init filepath dat read_json = Inr self" ..
    from HumaneData_init_Inr [OF s] assms have "data self = d" by auto
    with loaded_habits_have_id [OF s] show "\<forall>h\<in>set (habits_list d). h_id h \<noteq> None"
      by simp
  next
    assume "\<forall>h\<in>set (habits_list d). h_id h \<noteq> None"
    from build_habits_total [OF this, of Map.empty]
    show "\<exists>self. HumaneData_init filepath dat read_json = Inr self"
      by (auto simp: HumaneData_init_def assms)
  qed
qed

theorem missing_id_KeyError_witness:
  "load_data None (Some noid_data) no_files = Inr noid_data \<and>
   (\<exists>h\<in>set (habits_list noid_data). h_id h = None) \<and>
   HumaneData_init None (Some noid_data) no_files = Inl KeyError"
proof -
  have a: "load_data None (Some noid_data) no_files = Inr noid_data"
    by (simp add: load_data_def)
  have b: "\<exists>h\<in>set (habits_list noid_data). h_id h = None"
    by (simp add: habits_list_def get_or_def example_defs)
  show ?thesis
    using missing_id_KeyError [OF a] a b by simp
qed

subsection \<open>Grouping by category\<close>

lemma map_of_dict_append:
  "map_of (dict_append k v cs) =
     (map_of cs)(k \<mapsto> (case map_of cs k of None \<Rightarrow> [v] | Some vs \<Rightarrow> vs @ [v]))"
  by (induction cs) (auto simp: fun_eq_iff)

lemma keys_dict_append:
  "map fst (dict_append k v cs) = (if k \<in> fst ` set cs then map fst cs else map fst cs @ [k])"
  by (induction cs) force+

lemma distinct_dict_append:
  "distinct (map fst cs) \<Longrightarrow> distinct (map fst (dict_append k v cs))"
  by (simp add: keys_dict_append)

lemma group_by_snoc: "group_by f (xs @ [x]) = dict_append (f x) x (group_by f xs)"
  by (simp add: group_by_def)

lemma distinct_group_by: "distinct (map fst (group_by f xs))"
  by (induction xs rule: rev_induct) (simp_all add: group_by_def distinct_dict_append)

lemma map_of_group_by:
  "map_of (group_by f xs) k =
     (if filter (\<lambda>x. f x = k) xs = [] then None else Some (filter (\<lambda>x. f x = k) xs))"
proof (induction xs rule: rev_induct)
  case Nil
  then show ?case by (simp add: group_by_def)
next
  case (snoc x xs)
  then show ?case
    by (auto simp: group_by_snoc map_of_dict_append)
qed

lemma keys_group_by: "fst ` set (group_by f xs) = f ` set xs"
proof -
  have "fst ` set (group_by f xs) = dom (map_of (group_by f xs))"
    by (simp add: dom_map_of_conv_image_fst)
  also have "\<dots> = f ` set xs"
    by (force simp: dom_def map_of_group_by filter_empty_conv)
  finally show ?thesis .
qed

lemma group_by_member:
  "(k, vs) \<in> set (group_by f xs) \<Longrightarrow> vs = filter (\<lambda>x. f x = k) xs"
  using map_of_group_by [of f xs k] distinct_group_by [of f xs]
  by (auto split: if_splits)

lemma get_categories_group_by:
  "get_categories self = group_by category_of (habits_list (data self))"
  by (simp add: get_categories_def group_by_def)

lemma stats_keys:
  "map fst (get_category_stats self) = map fst (sort_key fst (get_categories self))"
  by (simp add: get_category_stats_def comp_def case_prod_unfold)

lemma distinct_keys_sort: "distinct (map fst cs) \<Longrightarrow> distinct (map fst (sort_key fst cs))"
  by (simp add: distinct_map)

text \<open>
  Claim C1. The category of a habit is its category field, \<open>''uncategorized''\<close> when the
  field is absent. The rows of \<open>get_category_stats\<close> are in strictly ascending order
  of the category name, so there is one row for a category; the names are exactly the
  categories of the habits of the snapshot; and in a row \<open>(c, n, t)\<close>, \<open>n\<close> is the number
  of habits of category \<open>c\<close> and \<open>t\<close> the sum of their weekly targets, 0 for an absent
  target.
\<close>

theorem category_stats_correct:
  "sorted_wrt (<) (map fst (get_category_stats self)) \<and>
   set (map fst (get_category_stats self)) = category_of ` set (habits_list (data self)) \<and>
   (\<forall>(c, n, t) \<in> set (get_category_stats self).
      n = length (filter (\<lambda>h. category_of h = c) (habits_list (data self))) \<and>
      t = sum_list (map (\<lambda>h. get_or (h_targetPerWeek h) 0)
            (filter (\<lambda>h. category_of h = c) (habits_list (data self)))))"
proof (intro conjI)
  have "distinct (map fst (get_categories self))"
    by (simp add: get_categories_group_by distinct_group_by)
  then have "distinct (map fst (get_category_stats self))"
    by (simp add: stats_keys distinct_keys_sort)
  moreover have "sorted (map fst (get_category_stats self))"
    by (simp add: stats_keys)
  ultimately show "sorted_wrt (<) (map fst (get_category_stats self))"
    by (simp add: strict_sorted_iff)
next
  show "set (map fst (get_category_stats self)) = category_of ` set (habits_list (data self))"
    by (simp add: stats_keys get_categories_group_by keys_group_by)
next
  show "\<forall>(c, n, t) \<in> set (get_category_stats self).
      n = length (filter (\<lambda>h. category_of h = c) (habits_list (data self))) \<and>
      t = sum_list (map (\<lambda>h. get_or (h_targetPerWeek h) 0)
            (filter (\<lambda>h. category_of h = c) (habits_list (data self))))"
    by (auto simp: get_category_stats_def get_categories_group_by dest: group_by_member)
qed

theorem category_stats_correct_witness:
  "HumaneData_init None (Some TEST_DATA) no_files = Inr test_humane_data \<and>
   get_category_stats test_humane_data = [(''fitness'', 2, 8), (''wellness'', 1, 7)] \<and>
   sorted_wrt (<) (map fst (get_category_stats test_humane_data)) \<and>
   length (filter (\<lambda>h. category_of h = ''fitness'') (habits_list (data test_humane_data))) = 2 \<and>
   sum_list (map (\<lambda>h. get_or (h_targetPerWeek h) 0)
     (filter (\<lambda>h. category_of h = ''fitness'') (habits_list (data test_humane_data)))) = 8"
  using category_stats_correct [of test_humane_data] init_test stats_test
  by auto

text \<open>
  Claim C2, on the code. A snapshot with the one habit \<open>habit_nocat\<close>, which has no
  category, loads; \<open>get_categories\<close> and \<open>get_category_stats\<close> put the habit in the
  category \<open>''uncategorized''\<close>, and \<open>get_habits_by_category\<close> returns no habit for that
  category.
\<close>

theorem uncategorized_bucket_evaluated:
  "HumaneData_init None (Some uncategorized_data) no_files = Inr uncategorized_humane_data \<and>
   get_categories uncategorized_humane_data = [(''uncategorized'', [habit_nocat])] \<and>
   get_category_stats uncategorized_humane_data = [(''uncategorized'', 1, 2)] \<and>
   get_habits_by_category uncategorized_humane_data ''uncategorized'' = []"
  by (simp add: accessor_defs example_defs)

subsection \<open>Lookups that miss\<close>

text \<open>
  Claim C3, as the code has it. On a loaded snapshot and an id that no habit has,
  \<open>get_habit_name\<close> returns \<open>''Unknown''\<close>. \<open>get_entries_for_habit\<close> does not look at
  the habits: it returns the entries that carry the id, in the order of the snapshot,
  and so the empty list exactly when no entry carries the id. Both are total.
\<close>

theorem lookup_miss_defaults:
  assumes "HumaneData_init filepath dat read_json = Inr self"
    and "\<forall>h\<in>set (habits_list (data self)). h_id h \<noteq> Some i"
  shows "get_habit_name self i = ''Unknown'' \<and>
         get_entries_for_habit self i =
           filter (\<lambda>e. e_habitId e = Some i) (entries_list (data self)) \<and>
         (get_entries_for_habit self i = []) =
           (\<forall>e\<in>set (entries_list (data self)). e_habitId e \<noteq> Some i)"
proof -
  from HumaneData_init_Inr [OF assms(1)] obtain d m where
    m: "build_habits (habits_list d) Map.empty = Inr m" and
    self: "self = \<lparr>data = d, habits = m, entries = entries_list d\<rparr>"
    by auto
  have "m i = None"
    using build_habits_miss [OF m, of i] assms(2) by (simp add: self)
  then have "get_habit_name self i = ''Unknown''"
    by (simp add: get_habit_name_def self)
  moreover have "get_entries_for_habit self i =
      filter (\<lambda>e. e_habitId e = Some i) (entries_list (data self))"
    by (simp add: get_entries_for_habit_def self)
  ultimately show ?thesis
    by (simp add: filter_empty_conv)
qed

theorem lookup_miss_defaults_witness:
  "HumaneData_init None (Some TEST_DATA) no_files = Inr test_humane_data \<and>
   get_habit_name test_humane_data ''nonexistent'' = ''Unknown'' \<and>
   get_entries_for_habit test_humane_data ''nonexistent'' = []"
proof -
  have a: "HumaneData_init None (Some TEST_DATA) no_files = Inr test_humane_data"
    by (rule init_test)
  have b: "\<forall>h\<in>set (habits_list (data test_humane_data)). h_id h \<noteq> Some ''nonexistent''"
    by (simp add: habits_list_def get_or_def example_defs)
  have c: "\<forall>e\<in>set (entries_list (data test_humane_data)). e_habitId e \<noteq> Some ''nonexistent''"
    by (simp add: entries_list_def get_or_def example_defs)
  show ?thesis
    using lookup_miss_defaults [OF a b] a c by simp
qed

text \<open>
  Claim C3 as stated says that an id that no habit has gets the empty list of entries.
  In \<open>orphan_data\<close> no habit has the id \<open>''ghost''\<close> and one entry carries it: the
  accessor returns that entry.
\<close>

theorem unknown_id_entries_counterexample:
  "HumaneData_init None (Some orphan_data) no_files = Inr orphan_humane_data \<and>
   habits orphan_humane_data ''ghost'' = None \<and>
   get_entries_for_habit orphan_humane_data ''ghost'' = [orphan_entry] \<and>
   get_entries_for_habit orphan_humane_data ''ghost'' \<noteq> []"
  by (simp add: accessor_defs example_defs)

section \<open>Properties of the screens\<close>

lemmas screen_defs =
  new_table_def add_row_def row_count_def table_cells_def entry_row_def date_key_def
  name_key_def habit_cells_def sorted_reverse_def EntriesScreen_on_mount_def
  HabitsScreen_on_mount_def new_HabitsScreen_def new_EntriesScreen_def
  HabitsScreen_rows_def EntriesScreen_rows_def str_int_def str_nat.simps

subsection \<open>Sorting in descending order\<close>

lemma sorted_reverse_sorted: "sorted_wrt (\<ge>) (map f (sorted_reverse f xs))"
proof -
  have "sorted (map f (sort_key f (rev xs)))" by simp
  then have "sorted_wrt (\<ge>) (rev (map f (sort_key f (rev xs))))"
    by (simp add: sorted_wrt_rev)
  then show ?thesis by (simp add: sorted_reverse_def rev_map)
qed

lemma sorted_reverse_stable:
  "filter (\<lambda>x. f x = k) (sorted_reverse f xs) = filter (\<lambda>x. f x = k) xs"
  by (simp add: sorted_reverse_def rev_filter [symmetric] sort_key_stable)

lemma mset_sorted_reverse: "mset (sorted_reverse f xs) = mset xs"
  by (simp add: sorted_reverse_def)

subsection \<open>Adding rows\<close>

lemma add_row_None: "add_row cs None t = Inr (t\<lparr>rows := rows t @ [(None, cs)]\<rparr>)"
  by (simp add: add_row_def)

lemma add_row_Some:
  "add_row cs (Some k) t =
     (if Some k \<in> fst ` set (rows t) then Inl DuplicateKey
      else Inr (t\<lparr>rows := rows t @ [(Some k, cs)]\<rparr>))"
  by (simp add: add_row_def)

lemma entries_add_rows_Inr:
  "entries_add_rows es t = Inr (t\<lparr>rows := rows t @ map (\<lambda>e. (None, entry_row e)) es\<rparr>)"
  by (induction es arbitrary: t) (simp_all add: add_row_None)

lemma EntriesScreen_on_mount_Inr:
  "EntriesScreen_on_mount es =
     Inr \<lparr>rows = map (\<lambda>e. (None, entry_row e)) (sorted_reverse date_key es) @
                (if es = [] then [(None, [''No entries'', ''-'', ''-''])] else []),
          cursor_row = 0\<rparr>"
  by (simp add: EntriesScreen_on_mount_def entries_add_rows_Inr add_row_None new_table_def
      sorted_reverse_def)

lemma habits_add_rows_result:
  "\<forall>h\<in>set hs. h_id h \<noteq> None \<Longrightarrow>
     habits_add_rows self hs t =
       (if distinct (map h_id hs) \<and> set (map h_id hs) \<inter> fst ` set (rows t) = {}
        then Inr (t\<lparr>rows := rows t @ map (habit_row self) hs\<rparr>)
        else Inl DuplicateKey)"
proof (induction hs arbitrary: t)
  case Nil
  then show ?case by simp
next
  case (Cons h hs)
  from Cons.prems obtain i where i: "h_id h = Some i" by auto
  from Cons.prems have rest: "\<forall>h\<in>set hs. h_id h \<noteq> None" by simp
  show ?case
  proof (cases "Some i \<in> fst ` set (rows t)")
    case True
    then show ?thesis by (auto simp: i add_row_Some)
  next
    case False
    then show ?thesis
      using Cons.IH [OF rest, of "t\<lparr>rows := rows t @ [(Some i, habit_cells self h i)]\<rparr>"]
      by (auto simp: i add_row_Some habit_row_def get_or_def image_Un)
  qed
qed

lemma categories_add_rows_result:
  "distinct (map fst stats) \<Longrightarrow> Some ` set (map fst stats) \<inter> fst ` set (rows t) = {} \<Longrightarrow>
     categories_add_rows stats t = Inr (t\<lparr>rows := rows t @ map category_row stats\<rparr>)"
proof (induction stats arbitrary: t)
  case Nil
  then show ?case by simp
next
  case (Cons st stats)
  obtain cat n target where st: "st = (cat, n, target)" by (cases st)
  from Cons.prems have new: "Some cat \<notin> fst ` set (rows t)" by (auto simp: st)
  let ?t' = "t\<lparr>rows := rows t @ [(Some cat, [capitalize cat, str_nat n, str_int target])]\<rparr>"
  have "categories_add_rows stats ?t' = Inr (?t'\<lparr>rows := rows ?t' @ map category_row stats\<rparr>)"
    using Cons.prems by (intro Cons.IH) (auto simp: st)
  then show ?case
    using new by (simp add: st add_row_Some category_row_def)
qed


subsection \<open>The Categories screen\<close>

lemma distinct_stats_keys: "distinct (map fst (get_category_stats self))"
  by (simp add: stats_keys distinct_keys_sort get_categories_group_by distinct_group_by)

lemma CategoriesScreen_on_mount_Inr:
  "CategoriesScreen_on_mount self =
     Inr \<lparr>rows = map category_row (get_category_stats self), cursor_row = 0\<rparr>"
  using categories_add_rows_result [OF distinct_stats_keys, of self new_table]
  by (simp add: CategoriesScreen_on_mount_def new_table_def)

lemma new_CategoriesScreen_Inr:
  "new_CategoriesScreen self =
     Inr (CategoriesScreen \<lparr>rows = map category_row (get_category_stats self), cursor_row = 0\<rparr>)"
  by (simp add: new_CategoriesScreen_def CategoriesScreen_on_mount_Inr)

subsection \<open>The Entries screen\<close>

lemma new_EntriesScreen_Inr:
  "new_EntriesScreen self i =
     Inr (EntriesScreen i (get_habit_name self i) (get_entries_for_habit self i)
       \<lparr>rows = map (\<lambda>e. (None, entry_row e))
                 (sorted_reverse date_key (get_entries_for_habit self i)) @
               (if get_entries_for_habit self i = []
                then [(None, [''No entries'', ''-'', ''-''])] else []),
        cursor_row = 0\<rparr>)"
  by (simp add: new_EntriesScreen_def Let_def EntriesScreen_on_mount_Inr)

text \<open>
  Claim C4. The rows that \<^verbatim>\<open>on_mount\<close> gives the Entries screen of a habit id \<open>i\<close>
  are the rows \<open>entry_row e\<close> of the entries \<open>e\<close> of the accessor whose \<^verbatim>\<open>habitId\<close> is
  \<open>i\<close>, and of no other entry, taken in the order \<open>sorted_reverse date_key\<close> (followed
  by the placeholder row when there is no such entry). That order is descending in the
  whole date string \<open>date_key e\<close>, it is a rearrangement of those entries, and the
  entries of one date keep the order they have in the snapshot. Only \<open>entry_row\<close> cuts
  the date to 10 characters.
\<close>

theorem entries_screen_order:
  "EntriesScreen_rows self i =
     Inr (map entry_row
            (sorted_reverse date_key (filter (\<lambda>e. e_habitId e = Some i) (entries self))) @
          (if filter (\<lambda>e. e_habitId e = Some i) (entries self) = []
           then [[''No entries'', ''-'', ''-'']] else [])) \<and>
   sorted_wrt (\<ge>)
     (map date_key
        (sorted_reverse date_key (filter (\<lambda>e. e_habitId e = Some i) (entries self)))) \<and>
   mset (sorted_reverse date_key (filter (\<lambda>e. e_habitId e = Some i) (entries self))) =
     mset (filter (\<lambda>e. e_habitId e = Some i) (entries self)) \<and>
   (\<forall>k. filter (\<lambda>e. date_key e = k)
          (sorted_reverse date_key (filter (\<lambda>e. e_habitId e = Some i) (entries self))) =
        filter (\<lambda>e. date_key e = k) (filter (\<lambda>e. e_habitId e = Some i) (entries self)))"
proof -
  have "get_entries_for_habit self i = filter (\<lambda>e. e_habitId e = Some i) (entries self)"
    by (simp add: get_entries_for_habit_def)
  then show ?thesis
    by (simp add: EntriesScreen_rows_def new_EntriesScreen_Inr table_cells_def comp_def
        sorted_reverse_sorted sorted_reverse_stable mset_sorted_reverse)
qed

text \<open>
  On \<open>times_data\<close>, which has the entries \<open>t1, t2, t3, t4\<close> of \<open>habit1\<close> and the entry
  \<open>e3\<close> of \<open>habit2\<close> between them: the screen of \<open>habit1\<close> has no row of \<open>e3\<close>;
  \<open>t2\<close> and \<open>t3\<close> show the same ten characters and are ordered by the time after them;
  \<open>t1\<close> and \<open>t4\<close> have one date and keep their order. The screen of \<open>habit2\<close> shows
  \<open>e3\<close> alone.
\<close>

theorem entries_screen_order_witness:
  "HumaneData_init None (Some times_data) no_files = Inr times_humane_data \<and>
   entries times_humane_data = [t1, e3, t2, t3, t4] \<and>
   EntriesScreen_rows times_humane_data ''habit1'' =
     Inr [[''2025-11-28'', ''2'', ''2025-11-28''],
          [''2025-11-28'', ''1'', ''2025-11-28''],
          [''2025-11-27'', ''3'', ''2025-11-27''],
          [''2025-11-27'', ''4'', []]] \<and>
   EntriesScreen_rows times_humane_data ''habit2'' = Inr [[''2025-11-28'', ''1'', ''2025-11-28'']]"
proof -
  have a: "filter (\<lambda>e. e_habitId e = Some ''habit1'') (entries times_humane_data) = [t1, t2, t3, t4]"
    by (simp add: example_defs)
  have a2: "filter (\<lambda>e. e_habitId e = Some ''habit2'') (entries times_humane_data) = [e3]"
    by (simp add: example_defs)
  have b: "sorted_reverse date_key [t1, t2, t3, t4] = [t3, t2, t1, t4]"
    by (simp add: example_defs screen_defs get_or_def)
  have b2: "sorted_reverse date_key [e3] = [e3]"
    by (simp add: sorted_reverse_def)
  have c: "map entry_row [t3, t2, t1, t4] =
     [[''2025-11-28'', ''2'', ''2025-11-28''],
      [''2025-11-28'', ''1'', ''2025-11-28''],
      [''2025-11-27'', ''3'', ''2025-11-27''],
      [''2025-11-27'', ''4'', []]]"
    by (simp add: example_defs screen_defs get_or_def)
  have c2: "map entry_row [e3] = [[''2025-11-28'', ''1'', ''2025-11-28'']]"
    by (simp add: example_defs screen_defs get_or_def)
  have "EntriesScreen_rows times_humane_data ''habit1'' = Inr (map entry_row [t3, t2, t1, t4])"
    using entries_screen_order [of times_humane_data "''habit1''"] unfolding a b by simp
  moreover
  have "EntriesScreen_rows times_humane_data ''habit2'' = Inr (map entry_row [e3])"
    using entries_screen_order [of times_humane_data "''habit2''"] unfolding a2 b2 by simp
  moreover have "HumaneData_init None (Some times_data) no_files = Inr times_humane_data"
    by (simp add: accessor_defs example_defs)
  moreover have "entries times_humane_data = [t1, e3, t2, t3, t4]"
    by (simp add: example_defs)
  ultimately show ?thesis
    unfolding c c2 by simp
qed

text \<open>
  Claim C9. When a habit id has no entry (a habit without entries, or an id that nothing
  in the snapshot carries), its Entries screen has one row, the placeholder
  \<open>No entries, -, -\<close>.
\<close>

theorem no_entries_placeholder:
  "get_entries_for_habit self i = [] \<Longrightarrow>
     EntriesScreen_rows self i = Inr [[''No entries'', ''-'', ''-'']] \<and>
     (\<exists>t. new_EntriesScreen self i = Inr (EntriesScreen i (get_habit_name self i) [] t) \<and>
          row_count t = 1)"
  by (simp add: EntriesScreen_rows_def new_EntriesScreen_Inr table_cells_def row_count_def
      sorted_reverse_def)

theorem no_entries_placeholder_witness:
  "get_entries_for_habit test_humane_data ''habit3'' = [] \<and>
   get_habit_name test_humane_data ''habit3'' = ''Evening Walk'' \<and>
   EntriesScreen_rows test_humane_data ''habit3'' = Inr [[''No entries'', ''-'', ''-'']] \<and>
   get_entries_for_habit test_humane_data ''nonexistent'' = [] \<and>
   EntriesScreen_rows test_humane_data ''nonexistent'' = Inr [[''No entries'', ''-'', ''-'']]"
proof -
  have a: "get_entries_for_habit test_humane_data ''habit3'' = []"
    by (simp add: accessor_defs example_defs)
  have b: "get_entries_for_habit test_humane_data ''nonexistent'' = []"
    by (simp add: accessor_defs example_defs)
  have c: "get_habit_name test_humane_data ''habit3'' = ''Evening Walk''"
    by (simp add: accessor_defs example_defs)
  show ?thesis
    using no_entries_placeholder [OF a] no_entries_placeholder [OF b] a b c by simp
qed

subsection \<open>The Habits screen\<close>

lemma get_habits_by_category_subset:
  "set (get_habits_by_category self c) \<subseteq> set (habits_list (data self))"
  by (auto simp: get_habits_by_category_def)

lemma distinct_ids_sort:
  "distinct (map h_id (sort_key name_key hs)) = distinct (map h_id hs)"
  by (rule mset_eq_imp_distinct_iff) simp

lemma new_HabitsScreen_result:
  assumes "\<forall>h\<in>set (habits_list (data self)). h_id h \<noteq> None"
  shows "new_HabitsScreen self c =
     (if distinct (map h_id (get_habits_by_category self c)) then
        Inr (HabitsScreen c (get_habits_by_category self c)
          \<lparr>rows = map (habit_row self) (sort_key name_key (get_habits_by_category self c)),
           cursor_row = 0\<rparr>)
      else Inl DuplicateKey)"
proof -
  have "\<forall>h\<in>set (sort_key name_key (get_habits_by_category self c)). h_id h \<noteq> None"
    using assms get_habits_by_category_subset [of self c] by auto
  from habits_add_rows_result [OF this, of self new_table]
  show ?thesis
    by (simp add: new_HabitsScreen_def HabitsScreen_on_mount_def Let_def new_table_def
        distinct_ids_sort)
qed

lemma init_noname: "HumaneData_init None (Some noname_data) no_files = Inr noname_humane_data"
  by (simp add: accessor_defs example_defs)

text \<open>
  Claim C5, as the code has it. The habits of a category \<open>c\<close> are the habits \<open>h\<close> of the
  snapshot with \<open>category_of h = c\<close>. On a loaded snapshot, for a category \<open>c\<close> that is
  not \<open>''uncategorized''\<close> (or when every habit has a category field), the rows that
  \<^verbatim>\<open>on_mount\<close> gives the Habits screen of \<open>c\<close> are those of the habits of \<open>c\<close>, and of
  no other habit, sorted by \<open>name_key\<close>: ascending in the order of strings (character
  by character, by the codes of the characters, so an upper-case letter is before every
  lower-case one), stable, and a rearrangement of those habits. \<open>name_key\<close> is the
  empty string for a habit without a name, which therefore comes first, while its row
  shows \<open>''Unknown''\<close> (\<open>habit_cells\<close>). The rows are keyed by the ids of the habits,
  which the data model takes to be unique: when two habits of the category have one id,
  the table refuses the second row.
\<close>

theorem habits_screen_order:
  assumes "HumaneData_init filepath dat read_json = Inr self"
    and "c \<noteq> ''uncategorized'' \<or>
         list_all (\<lambda>h. h_category h \<noteq> None) (habits_list (data self))"
  shows "HabitsScreen_rows self c =
           (if distinct (map h_id (filter (\<lambda>h. category_of h = c) (habits_list (data self)))) then
              Inr (map (\<lambda>h. habit_cells self h (get_or (h_id h) []))
                     (sort_key name_key
                        (filter (\<lambda>h. category_of h = c) (habits_list (data self)))))
            else Inl DuplicateKey) \<and>
         sorted (map name_key
           (sort_key name_key (filter (\<lambda>h. category_of h = c) (habits_list (data self))))) \<and>
         mset (sort_key name_key (filter (\<lambda>h. category_of h = c) (habits_list (data self)))) =
           mset (filter (\<lambda>h. category_of h = c) (habits_list (data self))) \<and>
         (\<forall>k. filter (\<lambda>h. name_key h = k)
                (sort_key name_key (filter (\<lambda>h. category_of h = c) (habits_list (data self)))) =
              filter (\<lambda>h. name_key h = k)
                (filter (\<lambda>h. category_of h = c) (habits_list (data self))))"
proof -
  have "HabitsScreen_rows self c =
      (if distinct (map h_id (get_habits_by_category self c)) then
         Inr (map (\<lambda>h. habit_cells self h (get_or (h_id h) []))
                (sort_key name_key (get_habits_by_category self c)))
       else Inl DuplicateKey)"
    by (simp add: HabitsScreen_rows_def
        new_HabitsScreen_result [OF loaded_habits_have_id [OF assms(1)]]
        table_cells_def habit_row_def comp_def)
  moreover
  have "get_habits_by_category self c =
      filter (\<lambda>h. category_of h = c) (habits_list (data self))"
    unfolding get_habits_by_category_def
  proof (rule filter_cong [OF refl])
    fix h
    assume "h \<in> set (habits_list (data self))"
    with assms(2) show "(h_category h = Some c) = (category_of h = c)"
      by (cases "h_category h") (auto simp: category_of_def get_or_def list_all_iff)
  qed
  ultimately show ?thesis
    by (simp add: sort_key_stable)
qed

text \<open>
  On \<open>noname_data\<close>, which has three habits of the category \<open>fitness\<close> and \<open>habit2\<close> of
  the category \<open>wellness\<close>: the screen of \<open>fitness\<close> has no row of \<open>habit2\<close>, and the
  screen of \<open>wellness\<close> shows \<open>habit2\<close> alone, with its one entry.
\<close>

theorem habits_screen_order_witness:
  "HumaneData_init None (Some noname_data) no_files = Inr noname_humane_data \<and>
   habits_list (data noname_humane_data) = [habit_lower, habit2, habit3, habit_noname] \<and>
   HabitsScreen_rows noname_humane_data ''fitness'' =
     Inr [[''Unknown'', ''4'', ''0''], [''Evening Walk'', ''5'', ''0''],
          [''evening stretch'', ''0'', ''0'']] \<and>
   HabitsScreen_rows noname_humane_data ''wellness'' = Inr [[''Meditation'', ''7'', ''1'']]"
proof -
  have l: "habits_list (data noname_humane_data) = [habit_lower, habit2, habit3, habit_noname]"
    by (simp add: habits_list_def get_or_def example_defs)
  have a: "filter (\<lambda>h. category_of h = ''fitness'') [habit_lower, habit2, habit3, habit_noname] =
      [habit_lower, habit3, habit_noname]"
    by (simp add: category_of_def get_or_def example_defs)
  have a2: "filter (\<lambda>h. category_of h = ''wellness'') [habit_lower, habit2, habit3, habit_noname] =
      [habit2]"
    by (simp add: category_of_def get_or_def example_defs)
  have b: "sort_key name_key [habit_lower, habit3, habit_noname] = [habit_noname, habit3, habit_lower]"
    by (simp add: example_defs name_key_def get_or_def)
  have c: "map (\<lambda>h. habit_cells noname_humane_data h (get_or (h_id h) []))
             [habit_noname, habit3, habit_lower] =
           [[''Unknown'', ''4'', ''0''], [''Evening Walk'', ''5'', ''0''],
            [''evening stretch'', ''0'', ''0'']]"
    by (simp add: example_defs habit_cells_def get_or_def str_int_def str_nat.simps
        get_entries_for_habit_def)
  have c2: "map (\<lambda>h. habit_cells noname_humane_data h (get_or (h_id h) [])) [habit2] =
           [[''Meditation'', ''7'', ''1'']]"
    by (simp add: example_defs habit_cells_def get_or_def str_int_def str_nat.simps
        get_entries_for_habit_def)
  have d: "distinct (map h_id [habit_lower, habit3, habit_noname])"
    by (simp add: example_defs)
  have "HabitsScreen_rows noname_humane_data ''fitness'' =
      Inr (map (\<lambda>h. habit_cells noname_humane_data h (get_or (h_id h) []))
             [habit_noname, habit3, habit_lower])"
    using habits_screen_order [OF init_noname, of "''fitness''"] d unfolding l a b by simp
  moreover
  have "HabitsScreen_rows noname_humane_data ''wellness'' =
      Inr (map (\<lambda>h. habit_cells noname_humane_data h (get_or (h_id h) [])) [habit2])"
    using habits_screen_order [OF init_noname, of "''wellness''"] unfolding l a2 by simp
  ultimately show ?thesis
    unfolding c c2 using init_noname l by simp
qed

text \<open>
  Claim C5 as stated orders the rows by the name with \<open>''Unknown''\<close> for an absent name.
  On \<open>noname_data\<close> the names of the rows of \<open>fitness\<close> are \<open>Unknown\<close>,
  \<open>Evening Walk\<close>, \<open>evening stretch\<close>, which is not ascending.
\<close>

theorem habits_screen_names_counterexample:
  "HabitsScreen_rows noname_humane_data ''fitness'' =
     Inr [[''Unknown'', ''4'', ''0''], [''Evening Walk'', ''5'', ''0''],
          [''evening stretch'', ''0'', ''0'']] \<and>
   first_column [[''Unknown'', ''4'', ''0''], [''Evening Walk'', ''5'', ''0''],
                 [''evening stretch'', ''0'', ''0'']] =
     [''Unknown'', ''Evening Walk'', ''evening stretch''] \<and>
   \<not> sorted (first_column [[''Unknown'', ''4'', ''0''], [''Evening Walk'', ''5'', ''0''],
                               [''evening stretch'', ''0'', ''0'']])"
  by (simp add: accessor_defs example_defs screen_defs first_column_def Let_def)

text \<open>Two habits of the category with one id: the screen fails to mount.\<close>

lemma twice_DuplicateKey:
  "HumaneData_init None (Some twice_data) no_files = Inr twice_humane_data \<and>
   HabitsScreen_rows twice_humane_data ''fitness'' = Inl DuplicateKey"
  by (simp add: accessor_defs example_defs screen_defs Let_def)

section \<open>Properties of the navigation\<close>

lemmas nav_defs =
  push_screen_def pop_screen_def set_top_def HumaneCLI_on_mount_def start_def session_def
  find_binding_def CategoriesScreen_BINDINGS_def HabitsScreen_BINDINGS_def
  EntriesScreen_BINDINGS_def HelpScreen_BINDINGS_def HumaneCLI_BINDINGS_def
  run_action_def on_key_def on_row_selected_def step_def cursor_key_def
  push_HabitsScreen_def push_EntriesScreen_def
  table_cursor_down_def table_cursor_up_def move_cursor_def
  new_CategoriesScreen_def CategoriesScreen_on_mount_def
  capitalize_def upper_char_def lower_char_def

subsection \<open>Tables and their cursors\<close>

lemma valid_table_cursor0: "cursor_row t = 0 \<Longrightarrow> valid_table t"
  by (simp add: valid_table_def)

lemma valid_table_cursor_down: "valid_table t \<Longrightarrow> valid_table (table_cursor_down t)"
  by (auto simp: valid_table_def table_cursor_down_def row_count_def)

lemma valid_table_cursor_up: "valid_table t \<Longrightarrow> valid_table (table_cursor_up t)"
  by (auto simp: valid_table_def table_cursor_up_def row_count_def)

lemma valid_table_move_cursor: "valid_table (move_cursor r t)"
  by (auto simp: valid_table_def move_cursor_def row_count_def)

lemma cursor_key_valid:
  "valid_table t \<Longrightarrow> 0 < row_count t \<Longrightarrow> \<exists>k. cursor_key t = Inr k"
  by (auto simp: valid_table_def cursor_key_def)

subsection \<open>New screens\<close>

lemma new_CategoriesScreen_valid:
  "\<exists>t. new_CategoriesScreen self = Inr (CategoriesScreen t) \<and> valid_table t"
  by (simp add: new_CategoriesScreen_Inr valid_table_cursor0)

lemma new_EntriesScreen_valid:
  "\<exists>s. new_EntriesScreen self i = Inr s \<and> valid_screen s \<and> \<not> is_CategoriesScreen s"
  by (simp add: new_EntriesScreen_Inr valid_table_cursor0)

lemma new_EntriesScreen_kind:
  "new_EntriesScreen self i = Inr s \<Longrightarrow> \<not> is_CategoriesScreen s"
  by (auto simp: new_EntriesScreen_Inr)

lemma new_HabitsScreen_kind:
  "new_HabitsScreen self c = Inr s \<Longrightarrow> \<not> is_CategoriesScreen s"
  by (auto simp: new_HabitsScreen_def Let_def split: sum.splits)

lemma unique_ids_category:
  "unique_ids self \<Longrightarrow> distinct (map h_id (get_habits_by_category self c))"
  by (simp add: unique_ids_def get_habits_by_category_def distinct_map_filter)

lemma new_HabitsScreen_valid:
  assumes "unique_ids self"
  shows "\<exists>s. new_HabitsScreen self c = Inr s \<and> valid_screen s"
proof -
  have "\<forall>h\<in>set (habits_list (data self)). h_id h \<noteq> None"
    using assms by (simp add: unique_ids_def list_all_iff)
  from new_HabitsScreen_result [OF this, of c] unique_ids_category [OF assms, of c]
  show ?thesis by (simp add: valid_table_cursor0)
qed

subsection \<open>The shape of the stack\<close>

lemma stack_inv_push: "stack_inv app \<Longrightarrow> stack_inv (push_screen s app)"
  by (simp add: stack_inv_def push_screen_def)

lemma stack_inv_set_top:
  "stack_inv app \<Longrightarrow> screen_stack app = s # rest \<Longrightarrow>
     is_CategoriesScreen s' = is_CategoriesScreen s \<Longrightarrow> stack_inv (set_top s' app)"
  by (auto simp: stack_inv_def set_top_def)

lemma stack_inv_pop:
  "stack_inv app \<Longrightarrow> screen_stack app = s # rest \<Longrightarrow> \<not> is_CategoriesScreen s \<Longrightarrow>
     \<exists>app'. pop_screen app = Inr app' \<and> stack_inv app' \<and>
       screen_stack app' = rest \<and> humane_data app' = humane_data app"
  by (cases rest) (auto simp: stack_inv_def pop_screen_def)

lemma stack_inv_quit: "stack_inv app \<Longrightarrow> stack_inv (app\<lparr>running := False\<rparr>)"
  by (simp add: stack_inv_def)

lemma push_HabitsScreen_stack:
  "stack_inv app \<Longrightarrow> push_HabitsScreen app c = Inr app' \<Longrightarrow> stack_inv app'"
  by (auto simp: push_HabitsScreen_def stack_inv_push split: sum.splits)

lemma push_EntriesScreen_stack:
  "stack_inv app \<Longrightarrow> push_EntriesScreen app i = Inr app' \<Longrightarrow> stack_inv app'"
  by (auto simp: push_EntriesScreen_def stack_inv_push split: sum.splits)

lemma screen_action_stack:
  assumes inv: "stack_inv app" and top: "screen_stack app = s # rest"
    and act: "screen_action app s a = Inr app'"
  shows "stack_inv app'"
proof (cases s)
  case (CategoriesScreen t)
  with act inv top show ?thesis
    by (cases a)
      (auto simp: stack_inv_quit stack_inv_push stack_inv_set_top
        dest: push_HabitsScreen_stack split: if_splits sum.splits)
next
  case (HabitsScreen c hs t)
  then have nc: "\<not> is_CategoriesScreen s" by simp
  from HabitsScreen act inv top stack_inv_pop [OF inv top nc] show ?thesis
    by (cases a)
      (auto simp: stack_inv_quit stack_inv_push stack_inv_set_top
        dest: push_EntriesScreen_stack split: if_splits sum.splits)
next
  case (EntriesScreen i n es t)
  then have nc: "\<not> is_CategoriesScreen s" by simp
  from EntriesScreen act inv top stack_inv_pop [OF inv top nc] show ?thesis
    by (cases a) (auto simp: stack_inv_quit stack_inv_push stack_inv_set_top)
next
  case HelpScreen
  then have nc: "\<not> is_CategoriesScreen s" by simp
  from HelpScreen act inv top stack_inv_pop [OF inv top nc] show ?thesis
    by (cases a) (auto simp: stack_inv_quit)
qed

lemma step_stack:
  assumes inv: "stack_inv app" and st: "step app ev = Inr app'"
  shows "stack_inv app'"
proof -
  from inv obtain s rest where top: "screen_stack app = s # rest"
    by (cases "screen_stack app") (auto simp: stack_inv_def)
  show ?thesis
  proof (cases "running app")
    case False
    with inv st show ?thesis by (simp add: step_def)
  next
    case True
    show ?thesis
    proof (cases ev)
      case (Key k)
      with st True inv top show ?thesis
        by (auto simp: step_def on_key_def run_action_def
            dest: screen_action_stack [OF inv top] split: option.splits)
    next
      case (RowSelected k)
      with st True inv top show ?thesis
        by (cases s)
          (auto simp: step_def on_row_selected_def
            dest: push_HabitsScreen_stack push_EntriesScreen_stack)
    qed
  qed
qed

lemma run_stack:
  "stack_inv app \<Longrightarrow> run app evs = Inr app' \<Longrightarrow> stack_inv app'"
proof (induction evs arbitrary: app)
  case Nil
  then show ?case by simp
next
  case (Cons ev evs)
  from Cons.prems(2) obtain app1 where
    s1: "step app ev = Inr app1" and r1: "run app1 evs = Inr app'"
    by (auto split: sum.splits)
  from Cons.IH [OF step_stack [OF Cons.prems(1) s1] r1] show ?case .
qed

lemma start_Inr:
  "\<exists>t. start self =
     Inr \<lparr>humane_data = self, screen_stack = [CategoriesScreen t], running = True\<rparr> \<and>
     valid_table t"
  using new_CategoriesScreen_valid [of self]
  by (auto simp: start_def HumaneCLI_on_mount_def push_screen_def)

lemma session_stack:
  assumes "session self evs = Inr app'"
  shows "stack_inv app'"
proof -
  from start_Inr [of self] obtain t where
    st: "start self = Inr \<lparr>humane_data = self, screen_stack = [CategoriesScreen t], running = True\<rparr>"
    by auto
  have "stack_inv \<lparr>humane_data = self, screen_stack = [CategoriesScreen t], running = True\<rparr>"
    by (simp add: stack_inv_def)
  from run_stack [OF this] assms show ?thesis
    by (simp add: session_def st)
qed


subsection \<open>States in which no event fails\<close>

lemma app_inv_push:
  "app_inv app \<Longrightarrow> valid_screen s \<Longrightarrow> app_inv (push_screen s app)"
  by (simp add: app_inv_def stack_inv_def push_screen_def)

lemma app_inv_set_top:
  "app_inv app \<Longrightarrow> screen_stack app = s # rest \<Longrightarrow> valid_screen s' \<Longrightarrow>
     is_CategoriesScreen s' = is_CategoriesScreen s \<Longrightarrow> app_inv (set_top s' app)"
  by (auto simp: app_inv_def stack_inv_def set_top_def)

lemma app_inv_pop:
  "app_inv app \<Longrightarrow> screen_stack app = s # rest \<Longrightarrow> \<not> is_CategoriesScreen s \<Longrightarrow>
     \<exists>app'. pop_screen app = Inr app' \<and> app_inv app'"
  by (cases rest) (auto simp: app_inv_def stack_inv_def pop_screen_def)

lemma app_inv_quit: "app_inv app \<Longrightarrow> app_inv (app\<lparr>running := False\<rparr>)"
  by (simp add: app_inv_def stack_inv_def)

lemma app_inv_top_valid:
  "app_inv app \<Longrightarrow> screen_stack app = s # rest \<Longrightarrow> valid_screen s"
  by (simp add: app_inv_def)

lemma push_HabitsScreen_inv:
  assumes "app_inv app"
  shows "\<exists>app'. push_HabitsScreen app c = Inr app' \<and> app_inv app'"
proof -
  from assms have "unique_ids (humane_data app)" by (simp add: app_inv_def)
  from new_HabitsScreen_valid [OF this, of c]
  obtain s where "new_HabitsScreen (humane_data app) c = Inr s" "valid_screen s" by auto
  then show ?thesis
    by (simp add: push_HabitsScreen_def app_inv_push [OF assms])
qed

lemma push_EntriesScreen_inv:
  assumes "app_inv app"
  shows "\<exists>app'. push_EntriesScreen app i = Inr app' \<and> app_inv app'"
proof -
  from new_EntriesScreen_valid [of "humane_data app" i]
  obtain s where "new_EntriesScreen (humane_data app) i = Inr s" "valid_screen s" by auto
  then show ?thesis
    by (simp add: push_EntriesScreen_def app_inv_push [OF assms])
qed

lemma screen_action_inv:
  assumes inv: "app_inv app" and top: "screen_stack app = s # rest"
  shows "\<exists>app'. screen_action app s a = Inr app' \<and> app_inv app'"
proof -
  note v = app_inv_top_valid [OF inv top]
  show ?thesis
  proof (cases s)
    case (CategoriesScreen t)
    with v have vt: "valid_table t" by simp
    show ?thesis
    proof (cases a)
      case Select
      show ?thesis
      proof (cases "0 < row_count t")
        case True
        from cursor_key_valid [OF vt True] obtain k where "cursor_key t = Inr k" ..
        with True show ?thesis
          using push_HabitsScreen_inv [OF inv, of k] by (simp add: CategoriesScreen Select)
      next
        case False
        then show ?thesis by (simp add: CategoriesScreen Select inv)
      qed
    qed (use inv top vt in \<open>simp_all add: CategoriesScreen app_inv_quit app_inv_push
          app_inv_set_top valid_table_cursor_down valid_table_cursor_up\<close>)
  next
    case (HabitsScreen c hs t)
    with v have vt: "valid_table t" by simp
    have nc: "\<not> is_CategoriesScreen s" by (simp add: HabitsScreen)
    show ?thesis
    proof (cases a)
      case Select
      show ?thesis
      proof (cases "0 < row_count t")
        case True
        from cursor_key_valid [OF vt True] obtain k where "cursor_key t = Inr k" ..
        with True show ?thesis
          using push_EntriesScreen_inv [OF inv, of k] by (simp add: HabitsScreen Select)
      next
        case False
        then show ?thesis by (simp add: HabitsScreen Select inv)
      qed
    next
      case Back
      then show ?thesis
        using app_inv_pop [OF inv top nc] by (simp add: HabitsScreen)
    qed (use inv top vt in \<open>simp_all add: HabitsScreen app_inv_quit app_inv_push
          app_inv_set_top valid_table_cursor_down valid_table_cursor_up\<close>)
  next
    case (EntriesScreen i n es t)
    with v have vt: "valid_table t" by simp
    have nc: "\<not> is_CategoriesScreen s" by (simp add: EntriesScreen)
    show ?thesis
    proof (cases a)
      case Back
      then show ?thesis
        using app_inv_pop [OF inv top nc] by (simp add: EntriesScreen)
    qed (use inv top vt in \<open>simp_all add: EntriesScreen app_inv_quit app_inv_push
          app_inv_set_top valid_table_cursor_down valid_table_cursor_up valid_table_move_cursor\<close>)
  next
    case HelpScreen
    have nc: "\<not> is_CategoriesScreen s" by (simp add: HelpScreen)
    show ?thesis
    proof (cases a)
      case Back
      then show ?thesis
        using app_inv_pop [OF inv top nc] by (simp add: HelpScreen)
    qed (use inv in \<open>simp_all add: HelpScreen app_inv_quit\<close>)
  qed
qed

lemma run_action_inv:
  assumes "app_inv app"
  shows "\<exists>app'. run_action app a = Inr app' \<and> app_inv app'"
proof (cases "screen_stack app")
  case Nil
  with assms show ?thesis by (simp add: app_inv_def stack_inv_def)
next
  case (Cons s rest)
  with screen_action_inv [OF assms Cons, of a] show ?thesis
    by (simp add: run_action_def)
qed

lemma step_inv:
  assumes "app_inv app"
  shows "\<exists>app'. step app ev = Inr app' \<and> app_inv app'"
proof (cases "running app")
  case False
  with assms show ?thesis by (simp add: step_def)
next
  case True
  show ?thesis
  proof (cases ev)
    case (Key k)
    show ?thesis
    proof (cases "find_binding (screen_stack app) k")
      case None
      with assms True show ?thesis by (simp add: step_def Key on_key_def)
    next
      case (Some a)
      with run_action_inv [OF assms, of a] True show ?thesis
        by (simp add: step_def Key on_key_def)
    qed
  next
    case (RowSelected k)
    from assms obtain s rest where top: "screen_stack app = s # rest"
      by (cases "screen_stack app") (auto simp: app_inv_def stack_inv_def)
    show ?thesis
      using push_HabitsScreen_inv [OF assms, of k] push_EntriesScreen_inv [OF assms, of k] assms True
      by (cases s) (simp_all add: step_def RowSelected on_row_selected_def top)
  qed
qed

lemma run_inv:
  "app_inv app \<Longrightarrow> \<exists>app'. run app evs = Inr app' \<and> app_inv app'"
proof (induction evs arbitrary: app)
  case Nil
  then show ?case by simp
next
  case (Cons ev evs)
  from step_inv [OF Cons.prems, of ev] obtain app1 where
    "step app ev = Inr app1" "app_inv app1" by auto
  with Cons.IH [of app1] show ?case by simp
qed

lemma session_total:
  assumes "unique_ids self"
  shows "\<exists>app'. session self evs = Inr app'"
proof -
  from start_Inr [of self] obtain t where
    st: "start self = Inr \<lparr>humane_data = self, screen_stack = [CategoriesScreen t], running = True\<rparr>"
    and vt: "valid_table t"
    by auto
  have "app_inv \<lparr>humane_data = self, screen_stack = [CategoriesScreen t], running = True\<rparr>"
    using assms vt by (simp add: app_inv_def stack_inv_def)
  from run_inv [OF this, of evs] show ?thesis
    by (auto simp: session_def st)
qed

lemma loaded_unique_ids:
  "HumaneData_init filepath dat read_json = Inr self \<Longrightarrow>
     distinct (map h_id (habits_list (data self))) \<Longrightarrow> unique_ids self"
  using loaded_habits_have_id [of filepath dat read_json self]
  by (simp add: unique_ids_def list_all_iff)

lemma no_back_key_on_Categories:
  "find_binding (CategoriesScreen t # rest) k \<noteq> Some Back"
  by (simp add: find_binding_def CategoriesScreen_BINDINGS_def HumaneCLI_BINDINGS_def)

text \<open>
  Claim C7. The app starts, on every accessor, with the Categories screen alone on its
  stack. On the Categories screen no key is bound to \<^verbatim>\<open>back\<close>, and the screen has no
  such action: running it changes nothing. Every state that a sequence of key presses
  and row selections reaches from the start has a non-empty stack with the Categories
  screen at the bottom. On a loaded snapshot whose habits have different ids, every such
  sequence does reach a state: no handler of the program fails.
\<close>

theorem categories_root_invariant:
  "(\<exists>t0. start self =
      Inr \<lparr>humane_data = self, screen_stack = [CategoriesScreen t0], running = True\<rparr>) \<and>
   find_binding (CategoriesScreen t # rest) k \<noteq> Some Back \<and>
   screen_action app (CategoriesScreen t) Back = Inr app \<and>
   (\<forall>app'. session self evs = Inr app' \<longrightarrow>
      screen_stack app' \<noteq> [] \<and> is_CategoriesScreen (last (screen_stack app'))) \<and>
   (HumaneData_init filepath dat read_json = Inr self \<and>
    distinct (map h_id (habits_list (data self))) \<longrightarrow>
      (\<exists>app'. session self evs = Inr app'))"
proof (intro conjI allI impI)
  show "\<exists>t0. start self =
      Inr \<lparr>humane_data = self, screen_stack = [CategoriesScreen t0], running = True\<rparr>"
    using start_Inr [of self] by auto
  show "find_binding (CategoriesScreen t # rest) k \<noteq> Some Back"
    by (rule no_back_key_on_Categories)
  show "screen_action app (CategoriesScreen t) Back = Inr app"
    by simp
next
  fix app'
  assume "session self evs = Inr app'"
  from session_stack [OF this]
  show "screen_stack app' \<noteq> []" "is_CategoriesScreen (last (screen_stack app'))"
    by (simp_all add: stack_inv_def)
next
  assume "HumaneData_init filepath dat read_json = Inr self \<and>
    distinct (map h_id (habits_list (data self)))"
  then have "unique_ids self" by (blast intro: loaded_unique_ids)
  then show "\<exists>app'. session self evs = Inr app'" by (rule session_total)
qed

theorem categories_root_invariant_witness:
  "HumaneData_init None (Some TEST_DATA) no_files = Inr test_humane_data \<and>
   distinct (map h_id (habits_list (data test_humane_data))) \<and>
   session test_humane_data
     [Key ''escape'', Key ''h'', Key ''l'', Key ''enter'', Key ''?'', Key ''?'', Key ''h'',
      Key ''escape'', Key ''escape'', Key ''j''] = Inr test_app \<and>
   screen_stack test_app \<noteq> [] \<and>
   is_CategoriesScreen (last (screen_stack test_app))"
proof -
  have a: "session test_humane_data
     [Key ''escape'', Key ''h'', Key ''l'', Key ''enter'', Key ''?'', Key ''?'', Key ''h'',
      Key ''escape'', Key ''escape'', Key ''j''] = Inr test_app"
    by (simp add: nav_defs stats_test screen_defs test_app_def accessor_defs example_defs)
  have b: "distinct (map h_id (habits_list (data test_humane_data)))"
    by (simp add: accessor_defs example_defs)
  show ?thesis
    using categories_root_invariant [where self = test_humane_data and
        evs = "[Key ''escape'', Key ''h'', Key ''l'', Key ''enter'', Key ''?'', Key ''?'',
          Key ''h'', Key ''escape'', Key ''escape'', Key ''j'']"]
      init_test a b
    by simp
qed

subsection \<open>Help and back\<close>

lemma restore_stack: "screen_stack app = st \<Longrightarrow> app\<lparr>screen_stack := st\<rparr> = app"
  by (cases app) simp

text \<open>
  Claim C8. In a running app whose visible screen \<open>s\<close> is not the Help screen, the key
  \<open>?\<close> puts the Help screen on top of \<open>s\<close>, and each key of the Help screen (all three
  are bound to \<^verbatim>\<open>back\<close>) then gives back the very state before \<open>?\<close>: the same stack,
  the same screen \<open>s\<close> with its table and its cursor.
\<close>

theorem help_round_trip:
  assumes "running app" and "screen_stack app = s # rest" and "s \<noteq> HelpScreen"
  shows "\<exists>app'. step app (Key ''?'') = Inr app' \<and>
           screen_stack app' = HelpScreen # s # rest \<and>
           step app' (Key ''escape'') = Inr app \<and>
           step app' (Key ''q'') = Inr app \<and>
           step app' (Key ''?'') = Inr app"
proof -
  have key_help: "find_binding (s # rest) ''?'' = Some Help"
    using assms(3)
    by (cases s) (simp_all add: find_binding_def CategoriesScreen_BINDINGS_def
        HabitsScreen_BINDINGS_def EntriesScreen_BINDINGS_def)
  have "run_action app Help = Inr (push_screen HelpScreen app)"
    using assms(3) by (cases s) (simp_all add: run_action_def assms(2))
  then have do_push: "step app (Key ''?'') = Inr (push_screen HelpScreen app)"
    by (simp add: step_def on_key_def assms(1,2) key_help)
  have key_back: "find_binding (HelpScreen # s # rest) k = Some Back"
    if "k \<in> {''escape'', ''q'', ''?''}" for k
    using that by (auto simp: find_binding_def HelpScreen_BINDINGS_def)
  have do_pop: "step (push_screen HelpScreen app) (Key k) = Inr app"
    if "k \<in> {''escape'', ''q'', ''?''}" for k
    using key_back [OF that] assms(1,2)
    by (simp add: step_def on_key_def push_screen_def run_action_def pop_screen_def
        restore_stack)
  show ?thesis
    using do_push do_pop assms(2) by (simp add: push_screen_def)
qed

theorem help_round_trip_witness:
  "running test_app \<and>
   run test_app [Key ''?''] =
     Inr (test_app\<lparr>screen_stack := HelpScreen # screen_stack test_app\<rparr>) \<and>
   run test_app [Key ''?'', Key ''escape''] = Inr test_app"
proof -
  have r: "running test_app" by (simp add: test_app_def)
  have st: "screen_stack test_app =
      CategoriesScreen
           \<lparr>rows = [(Some ''fitness'', [''Fitness'', ''2'', ''8'']),
                    (Some ''wellness'', [''Wellness'', ''1'', ''7''])],
            cursor_row = 1\<rparr> # []"
    by (simp add: test_app_def)
  from help_round_trip [OF r st] obtain app' where
    "step test_app (Key ''?'') = Inr app'"
    "screen_stack app' = HelpScreen # screen_stack test_app"
    "step app' (Key ''escape'') = Inr test_app"
    by (auto simp: st)
  moreover have "step test_app (Key ''?'') = Inr (test_app\<lparr>screen_stack := HelpScreen # screen_stack test_app\<rparr>)"
    by (simp add: nav_defs test_app_def)
  ultimately show ?thesis
    using r by auto
qed

end
